theory Spec2Isabelle
  imports Complex_Main
begin

section \<open>Python values, exceptions and calls into the libraries\<close>

text \<open>
  The three scripts of the repository (\<^verbatim>\<open>app.py\<close>, \<^verbatim>\<open>deploy_aws.py\<close>,
  \<^verbatim>\<open>streamlit_app.py\<close>) build objects of third-party libraries (LangChain, Chroma,
  Bedrock, DynamoDB) and call one method on them. The libraries are not part of the
  repository, so they are a parameter of every definition below: a record of functions
  that take the outside world (the model provider, the vector database, the network)
  as a state of type \<open>'w\<close>, and either return a Python value or raise.

  An \<open>exn\<close> is an instance of Python's class \<^verbatim>\<open>Exception\<close> (what every
  \<^verbatim>\<open>except Exception as e\<close> clause of the source names): its class name and
  \<^verbatim>\<open>str(e)\<close>.
\<close>

datatype exn = Exn (exn_class: string) (exn_str: string)

text \<open>
  Python values. \<open>PyObj\<close> is an object of a library, opaque to the scripts.
  A float literal is the real number its decimal notation denotes: the scripts only pass
  floats on to the libraries.
\<close>

datatype 'o pyval =
    PyNone
  | PyBool bool
  | PyInt int
  | PyFloat real
  | PyStr string
  | PyList "'o pyval list"
  | PyDict "(string \<times> 'o pyval) list"
  | PyObj 'o

text \<open>Truth value testing, as \<^verbatim>\<open>if x\<close> and \<^verbatim>\<open>not x\<close> do it.\<close>

fun py_truth :: "('o \<Rightarrow> bool) \<Rightarrow> 'o pyval \<Rightarrow> bool" where
  "py_truth t PyNone = False"
| "py_truth t (PyBool b) = b"
| "py_truth t (PyInt i) = (i \<noteq> 0)"
| "py_truth t (PyFloat r) = (r \<noteq> 0)"
| "py_truth t (PyStr s) = (s \<noteq> [])"
| "py_truth t (PyList xs) = (xs \<noteq> [])"
| "py_truth t (PyDict kvs) = (kvs \<noteq> [])"
| "py_truth t (PyObj x) = t x"

text \<open>\<^verbatim>\<open>d.get(k, default)\<close> on a dictionary, and \<^verbatim>\<open>d[k]\<close> read back from a
  dictionary literal.\<close>

definition dict_get :: "(string \<rightharpoonup> 'o pyval) \<Rightarrow> string \<Rightarrow> 'o pyval \<Rightarrow> 'o pyval" where
  "dict_get d k dflt = (case d k of None \<Rightarrow> dflt | Some v \<Rightarrow> v)"

definition item :: "'o pyval \<Rightarrow> string \<Rightarrow> 'o pyval option" where
  "item d k = (case d of PyDict kvs \<Rightarrow> map_of kvs k | _ \<Rightarrow> None)"

text \<open>
  A computation that may raise: it returns \<open>Inl e\<close> when the exception \<open>e\<close>
  leaves it, \<open>Inr v\<close> when it returns \<open>v\<close>, and the state after it either way.
\<close>

type_synonym ('a, 's) io = "'s \<Rightarrow> (exn + 'a) \<times> 's"

definition io_return :: "'a \<Rightarrow> ('a, 's) io" where
  "io_return a s = (Inr a, s)"

definition io_bind :: "('a, 's) io \<Rightarrow> ('a \<Rightarrow> ('b, 's) io) \<Rightarrow> ('b, 's) io" where
  "io_bind m f s = (case m s of (Inl e, s') \<Rightarrow> (Inl e, s') | (Inr a, s') \<Rightarrow> f a s')"

text \<open>
  The libraries: \<open>lib_call name args kwargs\<close> calls a class or function of a library
  by its name, with positional and keyword arguments; \<open>lib_method obj name args kwargs\<close>
  calls a method of an object; \<open>lib_truth\<close> is the truth value of a library object.
\<close>

record ('o, 'w) python_libs =
  lib_call :: "string \<Rightarrow> 'o pyval list \<Rightarrow> (string \<times> 'o pyval) list \<Rightarrow> ('o pyval, 'w) io"
  lib_method :: "'o pyval \<Rightarrow> string \<Rightarrow> 'o pyval list \<Rightarrow> (string \<times> 'o pyval) list \<Rightarrow> ('o pyval, 'w) io"
  lib_truth :: "'o \<Rightarrow> bool"

text \<open>What the scripts read of the operating system: \<^verbatim>\<open>os.environ\<close>,
  \<^verbatim>\<open>os.path.exists\<close> and \<^verbatim>\<open>os.listdir\<close> (which raises on a path that is
  not a directory).\<close>

record os_state =
  environ :: "string \<rightharpoonup> string"
  path_exists :: "string \<Rightarrow> bool"
  listdir :: "string \<Rightarrow> exn + string list"

definition environ_get :: "os_state \<Rightarrow> string \<Rightarrow> 'o pyval" where
  "environ_get os k = (case environ os k of None \<Rightarrow> PyNone | Some s \<Rightarrow> PyStr s)"

text \<open>
  What leaves a handler: the value it returns, the \<^verbatim>\<open>HTTPException\<close> it raises
  (status code and detail, which FastAPI turns into the response), or any other exception,
  which propagates to the caller.
\<close>

datatype 'o outcome =
    Return "'o pyval"
  | HTTPException int string
  | Raise exn

section \<open>app.py: the HTTP API\<close>

subsection \<open>Module initialisation\<close>

record 'o fastapi_app =
  title :: string
  version :: string
  middleware :: "(string \<times> (string \<times> 'o pyval) list) list"

definition FastAPI :: "string \<Rightarrow> string \<Rightarrow> 'o fastapi_app" where
  "FastAPI t v = \<lparr>title = t, version = v, middleware = []\<rparr>"

definition add_middleware ::
  "string \<Rightarrow> (string \<times> 'o pyval) list \<Rightarrow> 'o fastapi_app \<Rightarrow> 'o fastapi_app" where
  "add_middleware cls kwargs a = a\<lparr>middleware := middleware a @ [(cls, kwargs)]\<rparr>"

text \<open>The module's global names after initialisation. \<open>retrieval_qa\<close> is \<open>None\<close>
  while the name is unbound: the module assigns it only inside the \<^verbatim>\<open>try\<close> block.\<close>

record 'o app_module =
  app :: "'o fastapi_app"
  llm :: "'o pyval"
  memory :: "'o pyval"
  conversation :: "'o pyval"
  vector_store :: "'o pyval"
  retrieval_qa :: "'o pyval option"

text \<open>Lines 52 to 61: from the loader to \<^verbatim>\<open>Chroma.from_documents\<close>, whose result
  is assigned to \<open>vector_store\<close>.\<close>

definition create_vector_store :: "('o, 'w) python_libs \<Rightarrow> ('o pyval, 'w) io" where
  "create_vector_store lib =
     io_bind (lib_call lib ''DirectoryLoader'' [PyStr ''data''] [(''glob'', PyStr ''**/*.txt'')])
       (\<lambda>loader.
     io_bind (lib_method lib loader ''load'' [] [])
       (\<lambda>documents.
     io_bind (lib_call lib ''RecursiveCharacterTextSplitter'' []
                [(''chunk_size'', PyInt 1000), (''chunk_overlap'', PyInt 100)])
       (\<lambda>text_splitter.
     io_bind (lib_method lib text_splitter ''split_documents'' [documents] [])
       (\<lambda>texts.
     io_bind (lib_call lib ''OpenAIEmbeddings'' [] [])
       (\<lambda>embeddings.
     lib_call lib ''Chroma.from_documents'' [texts, embeddings]
       [(''persist_directory'', PyStr ''chroma_db'')])))))"

text \<open>Lines 64 to 68: the retrieval chain over the store's retriever.\<close>

definition create_retrieval_qa ::
  "('o, 'w) python_libs \<Rightarrow> 'o pyval \<Rightarrow> 'o pyval \<Rightarrow> ('o pyval, 'w) io" where
  "create_retrieval_qa lib the_llm store =
     io_bind (lib_method lib store ''as_retriever'' [] [])
       (\<lambda>retriever.
     lib_call lib ''RetrievalQA.from_chain_type'' []
       [(''llm'', the_llm), (''chain_type'', PyStr ''stuff''), (''retriever'', retriever)])"

text \<open>
  Lines 50 to 70, the \<^verbatim>\<open>try\<close> block: the values of \<open>vector_store\<close> and
  \<open>retrieval_qa\<close> after it and the lines it printed. An exception leaves the names
  as they stand where it is raised, and is printed.
\<close>

definition init_vector_store ::
  "('o, 'w) python_libs \<Rightarrow> 'o pyval \<Rightarrow> 'w \<Rightarrow> ('o pyval \<times> 'o pyval option \<times> string list) \<times> 'w" where
  "init_vector_store lib the_llm w =
     (case create_vector_store lib w of
        (Inl e, w1) \<Rightarrow> ((PyNone, None, [''Error initializing vector store: '' @ exn_str e]), w1)
      | (Inr store, w1) \<Rightarrow>
          (case create_retrieval_qa lib the_llm store w1 of
             (Inl e, w2) \<Rightarrow> ((store, None, [''Error initializing vector store: '' @ exn_str e]), w2)
           | (Inr qa, w2) \<Rightarrow> ((store, Some qa, []), w2)))"

text \<open>Lines 35 to 45: the chat model, the memory and the conversation chain.\<close>

definition create_conversation ::
  "('o, 'w) python_libs \<Rightarrow> ('o pyval \<times> 'o pyval \<times> 'o pyval, 'w) io" where
  "create_conversation lib =
     io_bind (lib_call lib ''ChatOpenAI'' [] [(''temperature'', PyFloat 0.7)])
       (\<lambda>llm.
     io_bind (lib_call lib ''ConversationBufferMemory'' [] [(''return_messages'', PyBool True)])
       (\<lambda>memory.
     io_bind (lib_call lib ''ConversationChain'' []
                [(''llm'', llm), (''memory'', memory), (''verbose'', PyBool True)])
       (\<lambda>conversation. io_return (llm, memory, conversation))))"

text \<open>
  The module body, lines 18 to 70: the result is the exception that stops the import, or
  the module's globals; with it the lines printed and the world after the calls.
\<close>

definition module_init ::
  "('o, 'w) python_libs \<Rightarrow> os_state \<Rightarrow> 'w \<Rightarrow> (exn + 'o app_module) \<times> string list \<times> 'w" where
  "module_init lib os w =
     (let app0 = add_middleware ''CORSMiddleware''
                   [(''allow_origins'', PyList [PyStr ''*'']),
                    (''allow_credentials'', PyBool True),
                    (''allow_methods'', PyList [PyStr ''*'']),
                    (''allow_headers'', PyList [PyStr ''*''])]
                   (FastAPI ''LangChain API'' ''1.0'')
      in if \<not> py_truth (lib_truth lib) (environ_get os ''OPENAI_API_KEY'')
         then (Inl (Exn ''ValueError'' ''OPENAI_API_KEY environment variable is not set''), [], w)
         else
           (case create_conversation lib w of
              (Inl e, w1) \<Rightarrow> (Inl e, [], w1)
            | (Inr (l, mem, conv), w1) \<Rightarrow>
                (case (if path_exists os ''data'' then init_vector_store lib l w1
                       else ((PyNone, None, []), w1)) of
                   ((store, qa, printed), w2) \<Rightarrow>
                     (Inr \<lparr>app = app0, llm = l, memory = mem, conversation = conv,
                           vector_store = store, retrieval_qa = qa\<rparr>, printed, w2))))"

subsection \<open>Request models\<close>

record ChatRequest =
  message :: string
  session_id :: "string option"

text \<open>Building a \<open>ChatRequest\<close> from a request body: \<open>sid = None\<close> is a body
  without the field, which then takes its declared default; \<open>Some None\<close> is a
  \<^verbatim>\<open>null\<close>.\<close>

definition ChatRequest_init :: "string \<Rightarrow> string option option \<Rightarrow> ChatRequest" where
  "ChatRequest_init msg sid =
     \<lparr>message = msg, session_id = (case sid of None \<Rightarrow> Some ''default'' | Some v \<Rightarrow> v)\<rparr>"

record QueryRequest =
  query_field :: string

definition py_optional_str :: "string option \<Rightarrow> 'o pyval" where
  "py_optional_str s = (case s of None \<Rightarrow> PyNone | Some v \<Rightarrow> PyStr v)"

subsection \<open>Routes\<close>

definition health_check :: "'o app_module \<Rightarrow> 'w \<Rightarrow> 'o outcome \<times> 'w" where
  "health_check m w =
     (Return (PyDict [(''status'', PyStr ''healthy''), (''version'', PyStr (version (app m)))]), w)"

definition chat ::
  "('o, 'w) python_libs \<Rightarrow> 'o app_module \<Rightarrow> ChatRequest \<Rightarrow> 'w \<Rightarrow> 'o outcome \<times> 'w" where
  "chat lib m request w =
     (case lib_method lib (conversation m) ''predict'' [] [(''input'', PyStr (message request))] w of
        (Inr response, w') \<Rightarrow>
          (Return (PyDict [(''response'', response),
                           (''session_id'', py_optional_str (session_id request))]), w')
      | (Inl e, w') \<Rightarrow> (HTTPException 500 (exn_str e), w'))"

text \<open>Reading the global \<open>retrieval_qa\<close> while it is unbound raises
  \<^verbatim>\<open>NameError\<close>, inside the \<^verbatim>\<open>try\<close> of the handler.\<close>

definition run_retrieval_qa ::
  "('o, 'w) python_libs \<Rightarrow> 'o app_module \<Rightarrow> 'o pyval \<Rightarrow> ('o pyval, 'w) io" where
  "run_retrieval_qa lib m q w =
     (case retrieval_qa m of
        None \<Rightarrow> (Inl (Exn ''NameError'' ''name 'retrieval_qa' is not defined''), w)
      | Some qa \<Rightarrow> lib_method lib qa ''run'' [q] [] w)"

definition query ::
  "('o, 'w) python_libs \<Rightarrow> 'o app_module \<Rightarrow> QueryRequest \<Rightarrow> 'w \<Rightarrow> 'o outcome \<times> 'w" where
  "query lib m request w =
     (if \<not> py_truth (lib_truth lib) (vector_store m)
      then (HTTPException 400 ''Vector store not initialized'', w)
      else
        (case run_retrieval_qa lib m (PyStr (query_field request)) w of
           (Inr response, w') \<Rightarrow> (Return (PyDict [(''response'', response)]), w')
         | (Inl e, w') \<Rightarrow> (HTTPException 500 (exn_str e), w')))"

subsection \<open>The AWS Lambda handler of app.py\<close>

definition app_lambda_handler ::
  "('o, 'w) python_libs \<Rightarrow> 'o app_module \<Rightarrow> (string \<rightharpoonup> 'o pyval) \<Rightarrow> 'w \<Rightarrow> 'o outcome \<times> 'w" where
  "app_lambda_handler lib m event w =
     (let msg = dict_get event ''message'' (PyStr '''');
          sid = dict_get event ''session_id'' (PyStr ''default'')
      in case lib_method lib (conversation m) ''predict'' [] [(''input'', msg)] w of
           (Inl e, w') \<Rightarrow> (Raise e, w')
         | (Inr response, w') \<Rightarrow>
             (Return (PyDict [(''statusCode'', PyInt 200),
                              (''body'', PyDict [(''response'', response), (''session_id'', sid)])]),
              w'))"


section \<open>deploy_aws.py: the AWS Lambda handler over Bedrock\<close>

text \<open>A handler with no \<^verbatim>\<open>try\<close>: an exception of a call leaves the handler.\<close>

definition propagate :: "('o pyval, 'w) io \<Rightarrow> 'w \<Rightarrow> 'o outcome \<times> 'w" where
  "propagate c w = (case c w of (Inl e, w') \<Rightarrow> (Raise e, w') | (Inr v, w') \<Rightarrow> (Return v, w'))"

text \<open>Lines 9 to 32, up to the model's answer: the answer and the session id.\<close>

definition deploy_aws_predict ::
  "('o, 'w) python_libs \<Rightarrow> (string \<rightharpoonup> 'o pyval) \<Rightarrow> ('o pyval \<times> 'o pyval, 'w) io" where
  "deploy_aws_predict lib event =
     io_bind (lib_call lib ''Bedrock'' []
                [(''model_id'', PyStr ''anthropic.claude-v2''), (''region_name'', PyStr ''us-east-1'')])
       (\<lambda>llm.
     let session_id = dict_get event ''session_id'' (PyStr ''default'') in
     io_bind (lib_call lib ''DynamoDBChatMessageHistory'' []
                [(''table_name'', PyStr ''langchain-chat-history''), (''session_id'', session_id)])
       (\<lambda>message_history.
     io_bind (lib_call lib ''ConversationChain'' [] [(''llm'', llm), (''memory'', message_history)])
       (\<lambda>conversation.
     let user_input = dict_get event ''message'' (PyStr '''') in
     io_bind (lib_method lib conversation ''predict'' [] [(''input'', user_input)])
       (\<lambda>response. io_return (response, session_id)))))"

text \<open>Lines 34 to 40: the body is the text \<^verbatim>\<open>json.dumps\<close> makes of the dictionary.\<close>

definition deploy_aws_lambda_handler ::
  "('o, 'w) python_libs \<Rightarrow> (string \<rightharpoonup> 'o pyval) \<Rightarrow> 'w \<Rightarrow> 'o outcome \<times> 'w" where
  "deploy_aws_lambda_handler lib event =
     propagate
      (io_bind (deploy_aws_predict lib event)
         (\<lambda>(response, session_id).
       io_bind (lib_call lib ''json.dumps''
                  [PyDict [(''response'', response), (''session_id'', session_id)]] [])
         (\<lambda>body.
       io_return (PyDict [(''statusCode'', PyInt 200), (''body'', body)]))))"

section \<open>streamlit_app.py: the chat page\<close>

text \<open>
  One run of the script. The widgets' values are its input; what it shows is a list of
  events (warnings, infos, errors, markdown, chat message blocks; titles, headers,
  dividers, spinners and the caption are decoration and not recorded). The state of a
  run: the operating system, \<^verbatim>\<open>st.session_state.messages\<close> (\<open>None\<close> while the
  key is not in the session state), the events shown so far and the outside world.
\<close>

record widgets =
  api_key :: string
  temperature :: real
  model_name :: string
  prompt :: "string option"
  rag_query :: string

datatype 'o ui_event =
    St_warning string
  | St_info string
  | St_error string
  | St_markdown "'o pyval"
  | St_chat_message string

record 'o chat_entry =
  role :: string
  content :: "'o pyval"

record ('o, 'w) st_run =
  st_os :: os_state
  st_messages :: "'o chat_entry list option"
  st_ui :: "'o ui_event list"
  st_world :: 'w

definition st_show :: "'o ui_event \<Rightarrow> (unit, ('o, 'w) st_run) io" where
  "st_show ev s = (Inr (), s\<lparr>st_ui := st_ui s @ [ev]\<rparr>)"

definition st_lib :: "('a, 'w) io \<Rightarrow> ('a, ('o, 'w) st_run) io" where
  "st_lib c s = (case c (st_world s) of (r, w') \<Rightarrow> (r, s\<lparr>st_world := w'\<rparr>))"

definition messages_append :: "'o chat_entry \<Rightarrow> (unit, ('o, 'w) st_run) io" where
  "messages_append e s = (Inr (), s\<lparr>st_messages := map_option (\<lambda>ms. ms @ [e]) (st_messages s)\<rparr>)"

definition initialize_langchain ::
  "('o, 'w) python_libs \<Rightarrow> widgets \<Rightarrow> ('o pyval \<times> 'o pyval, ('o, 'w) st_run) io" where
  "initialize_langchain lib wd =
     (if api_key wd = []
      then io_bind (st_show (St_warning ''Please enter your OpenAI API key in the sidebar.''))
             (\<lambda>_. io_return (PyNone, PyNone))
      else
        io_bind (st_lib (lib_call lib ''ChatOpenAI'' []
                   [(''model_name'', PyStr (model_name wd)),
                    (''temperature'', PyFloat (temperature wd)),
                    (''streaming'', PyBool True)]))
          (\<lambda>chat_model.
        io_bind (st_lib (lib_call lib ''ConversationBufferMemory'' []
                   [(''return_messages'', PyBool True)]))
          (\<lambda>memory.
        io_bind (st_lib (lib_call lib ''ConversationChain'' []
                   [(''llm'', chat_model), (''memory'', memory), (''verbose'', PyBool True)]))
          (\<lambda>conversation. io_return (chat_model, conversation)))))"

text \<open>\<^verbatim>\<open>os.path.exists("chroma_db") and os.listdir("chroma_db")\<close>, as a truth value.\<close>

definition chroma_db_present :: "(bool, ('o, 'w) st_run) io" where
  "chroma_db_present s =
     (if path_exists (st_os s) ''chroma_db''
      then (case listdir (st_os s) ''chroma_db'' of
              Inl e \<Rightarrow> (Inl e, s)
            | Inr names \<Rightarrow> (Inr (names \<noteq> []), s))
      else (Inr False, s))"

text \<open>The body of the \<^verbatim>\<open>try\<close> of \<^verbatim>\<open>initialize_rag\<close>, lines 68 to 89.\<close>

definition initialize_rag_body ::
  "('o, 'w) python_libs \<Rightarrow> widgets \<Rightarrow> ('o pyval, ('o, 'w) st_run) io" where
  "initialize_rag_body lib wd =
     io_bind (st_lib (lib_call lib ''OpenAIEmbeddings'' [] []))
       (\<lambda>embeddings.
     io_bind chroma_db_present
       (\<lambda>present.
     if \<not> present
     then io_bind (st_show (St_info
            ''No existing vector store found. Please add documents to the 'data' folder.''))
            (\<lambda>_. io_return PyNone)
     else
       io_bind (st_lib (lib_call lib ''Chroma'' []
                  [(''persist_directory'', PyStr ''chroma_db''), (''embedding_function'', embeddings)]))
         (\<lambda>vector_store.
       io_bind (initialize_langchain lib wd)
         (\<lambda>(chat_model, _).
       if \<not> py_truth (lib_truth lib) chat_model
       then io_return PyNone
       else
         io_bind (st_lib (lib_method lib vector_store ''as_retriever'' [] []))
           (\<lambda>retriever.
         st_lib (lib_call lib ''RetrievalQA.from_chain_type'' []
           [(''llm'', chat_model), (''chain_type'', PyStr ''stuff''), (''retriever'', retriever)]))))))"

definition initialize_rag ::
  "('o, 'w) python_libs \<Rightarrow> widgets \<Rightarrow> ('o pyval, ('o, 'w) st_run) io" where
  "initialize_rag lib wd s =
     (if api_key wd = [] then (Inr PyNone, s)
      else if \<not> path_exists (st_os s) ''data'' then (Inr PyNone, s)
      else
        (case initialize_rag_body lib wd s of
           (Inl e, s') \<Rightarrow>
             io_bind (st_show (St_error (''Error initializing RAG: '' @ exn_str e)))
               (\<lambda>_. io_return PyNone) s'
         | (Inr qa, s') \<Rightarrow> (Inr qa, s')))"

text \<open>\<^verbatim>\<open>StreamlitCallbackHandler(st.container())\<close>.\<close>

definition new_st_callback :: "('o, 'w) python_libs \<Rightarrow> ('o pyval, ('o, 'w) st_run) io" where
  "new_st_callback lib =
     io_bind (st_lib (lib_call lib ''st.container'' [] []))
       (\<lambda>container. st_lib (lib_call lib ''StreamlitCallbackHandler'' [container] []))"

text \<open>Lines 95 to 123: the chat input.\<close>

definition chat_section ::
  "('o, 'w) python_libs \<Rightarrow> widgets \<Rightarrow> (unit, ('o, 'w) st_run) io" where
  "chat_section lib wd =
     (case prompt wd of
        None \<Rightarrow> io_return ()
      | Some p \<Rightarrow>
          if p = [] then io_return ()
          else
            io_bind (messages_append \<lparr>role = ''user'', content = PyStr p\<rparr>) (\<lambda>_.
            io_bind (st_show (St_chat_message ''user'')) (\<lambda>_.
            io_bind (st_show (St_markdown (PyStr p))) (\<lambda>_.
            io_bind (st_show (St_chat_message ''assistant'')) (\<lambda>_.
            io_bind (new_st_callback lib) (\<lambda>st_callback.
            io_bind (initialize_langchain lib wd) (\<lambda>(_, conversation).
            if \<not> py_truth (lib_truth lib) conversation
            then st_show (St_warning ''Please configure your API key to continue.'')
            else
              io_bind (st_lib (lib_method lib conversation ''predict'' []
                         [(''input'', PyStr p), (''callbacks'', PyList [st_callback])]))
                (\<lambda>response.
              io_bind (st_show (St_markdown response)) (\<lambda>_.
              messages_append \<lparr>role = ''assistant'', content = response\<rparr>)))))))))"

text \<open>Lines 129 to 142: the question about the documents.\<close>

definition rag_section ::
  "('o, 'w) python_libs \<Rightarrow> widgets \<Rightarrow> (unit, ('o, 'w) st_run) io" where
  "rag_section lib wd =
     (if rag_query wd = [] then io_return ()
      else
        io_bind (initialize_rag lib wd) (\<lambda>retrieval_qa.
        if \<not> py_truth (lib_truth lib) retrieval_qa
        then st_show (St_warning
               ''Document retrieval is not available. Please check your API key and data folder.'')
        else
          io_bind (new_st_callback lib) (\<lambda>st_callback.
          io_bind (st_lib (lib_method lib retrieval_qa ''run'' [PyStr (rag_query wd)]
                     [(''callbacks'', PyList [st_callback])]))
            (\<lambda>response. st_show (St_markdown response)))))"

text \<open>Lines 16 to 32: the sidebar stores a key that was entered in the environment; the
  session's message list is created when missing; the history is shown.\<close>

definition page_setup :: "widgets \<Rightarrow> (unit, ('o, 'w) st_run) io" where
  "page_setup wd s =
     (let os1 = (if api_key wd = [] then st_os s
                 else (st_os s)\<lparr>environ := (environ (st_os s))(''OPENAI_API_KEY'' \<mapsto> api_key wd)\<rparr>);
          msgs = (case st_messages s of None \<Rightarrow> [] | Some ms \<Rightarrow> ms)
      in (Inr (), s\<lparr>st_os := os1, st_messages := Some msgs,
                    st_ui := st_ui s @
                      concat (map (\<lambda>m. [St_chat_message (role m), St_markdown (content m)]) msgs)\<rparr>))"

definition streamlit_app ::
  "('o, 'w) python_libs \<Rightarrow> widgets \<Rightarrow> (unit, ('o, 'w) st_run) io" where
  "streamlit_app lib wd =
     io_bind (page_setup wd) (\<lambda>_.
     io_bind (chat_section lib wd) (\<lambda>_. rag_section lib wd))"

section \<open>Concrete libraries and inputs\<close>

text \<open>
  A library to run the scripts on: every constructor returns an object named after it,
  \<^verbatim>\<open>predict\<close> answers with the input it was given and records it in the world (a
  list of the inputs seen), \<^verbatim>\<open>run\<close> answers the question, and
  \<^verbatim>\<open>json.dumps\<close> writes a dictionary of strings (without escaping).
\<close>

definition echo_json :: "string pyval \<Rightarrow> string" where
  "echo_json v = (case v of PyStr s \<Rightarrow> [CHR 0x22] @ s @ [CHR 0x22] | _ \<Rightarrow> ''null'')"

fun echo_members :: "(string \<times> string pyval) list \<Rightarrow> string" where
  "echo_members [] = []"
| "echo_members [(k, v)] = [CHR 0x22] @ k @ [CHR 0x22] @ '': '' @ echo_json v"
| "echo_members ((k, v) # kvs) =
     [CHR 0x22] @ k @ [CHR 0x22] @ '': '' @ echo_json v @ '', '' @ echo_members kvs"

definition echo_call ::
  "string \<Rightarrow> string pyval list \<Rightarrow> (string \<times> string pyval) list \<Rightarrow> (string pyval, string list) io" where
  "echo_call name args kwargs w =
     (if name = ''json.dumps''
      then (case args of
              [PyDict kvs] \<Rightarrow> (Inr (PyStr (''{'' @ echo_members kvs @ ''}'')), w)
            | _ \<Rightarrow> (Inl (Exn ''TypeError'' ''not a dictionary''), w))
      else (Inr (PyObj name), w))"

definition echo_method ::
  "string pyval \<Rightarrow> string \<Rightarrow> string pyval list \<Rightarrow> (string \<times> string pyval) list
     \<Rightarrow> (string pyval, string list) io" where
  "echo_method obj name args kwargs w =
     (if name = ''predict''
      then (case map_of kwargs ''input'' of
              Some (PyStr s) \<Rightarrow> (Inr (PyStr (''echo: '' @ s)), w @ [s])
            | _ \<Rightarrow> (Inl (Exn ''ValueError'' ''input is not a string''), w))
      else if name = ''run''
      then (case args of
              [PyStr q] \<Rightarrow> (Inr (PyStr (''answer: '' @ q)), w)
            | _ \<Rightarrow> (Inl (Exn ''ValueError'' ''query is not a string''), w))
      else (Inr (PyObj name), w))"

definition echo_libs :: "(string, string list) python_libs" where
  "echo_libs = \<lparr>lib_call = echo_call, lib_method = echo_method, lib_truth = (\<lambda>_. True)\<rparr>"

text \<open>The same library, where the call or method named \<open>n\<close> raises \<open>e\<close>.\<close>

definition raising_libs :: "string \<Rightarrow> exn \<Rightarrow> (string, string list) python_libs" where
  "raising_libs n e =
     \<lparr>lib_call = (\<lambda>name args kwargs w.
        if name = n then (Inl e, w) else echo_call name args kwargs w),
      lib_method = (\<lambda>obj name args kwargs w.
        if name = n then (Inl e, w) else echo_method obj name args kwargs w),
      lib_truth = (\<lambda>_. True)\<rparr>"

text \<open>A machine with the key set and a \<^verbatim>\<open>data\<close> directory, and one with neither.\<close>

definition demo_os :: os_state where
  "demo_os = \<lparr>environ = [''OPENAI_API_KEY'' \<mapsto> ''sk-test''],
              path_exists = (\<lambda>p. p = ''data''),
              listdir = (\<lambda>p. Inr [])\<rparr>"

definition bare_os :: os_state where
  "bare_os = \<lparr>environ = Map.empty, path_exists = (\<lambda>p. False), listdir = (\<lambda>p. Inr [])\<rparr>"

text \<open>The module's globals with a given \<open>vector_store\<close> and \<open>retrieval_qa\<close>.\<close>

definition demo_module :: "string pyval \<Rightarrow> string pyval option \<Rightarrow> string app_module" where
  "demo_module store qa =
     \<lparr>app = FastAPI ''LangChain API'' ''1.0'',
      llm = PyObj ''ChatOpenAI'',
      memory = PyObj ''ConversationBufferMemory'',
      conversation = PyObj ''ConversationChain'',
      vector_store = store,
      retrieval_qa = qa\<rparr>"

definition demo_widgets :: "string \<Rightarrow> string option \<Rightarrow> widgets" where
  "demo_widgets k p =
     \<lparr>api_key = k, temperature = 0.7, model_name = ''gpt-3.5-turbo'', prompt = p, rag_query = []\<rparr>"

definition fresh_run :: "os_state \<Rightarrow> (string, string list) st_run" where
  "fresh_run os = \<lparr>st_os = os, st_messages = None, st_ui = [], st_world = []\<rparr>"

section \<open>Sequencing\<close>

lemma io_bind_Inl: "m s = (Inl e, s') \<Longrightarrow> io_bind m f s = (Inl e, s')"
  by (simp add: io_bind_def)

lemma io_bind_Inr: "m s = (Inr a, s') \<Longrightarrow> io_bind m f s = f a s'"
  by (simp add: io_bind_def)

lemma io_bind_cases:
  "io_bind m f s = (r, t) \<Longrightarrow>
     (\<exists>e. m s = (Inl e, t) \<and> r = Inl e) \<or> (\<exists>a s'. m s = (Inr a, s') \<and> f a s' = (r, t))"
  by (auto simp: io_bind_def split: prod.splits sum.splits)

lemma propagate_Inl: "c w = (Inl e, w') \<Longrightarrow> propagate c w = (Raise e, w')"
  by (simp add: propagate_def)

lemma propagate_Inr: "c w = (Inr v, w') \<Longrightarrow> propagate c w = (Return v, w')"
  by (simp add: propagate_def)

lemmas echo_defs =
  echo_libs_def raising_libs_def echo_call_def echo_method_def echo_json_def
  demo_os_def bare_os_def demo_module_def demo_widgets_def fresh_run_def

lemmas run_defs = io_bind_def io_return_def propagate_def dict_get_def Let_def

section \<open>The query endpoint\<close>

lemma query_no_store:
  "\<not> py_truth (lib_truth lib) (vector_store m) \<Longrightarrow>
     query lib m request w = (HTTPException 400 ''Vector store not initialized'', w)"
  by (simp add: query_def)

lemma query_store_failure:
  assumes "py_truth (lib_truth lib) (vector_store m)"
    and "run_retrieval_qa lib m (PyStr (query_field request)) w = (Inl e, w')"
  shows "query lib m request w = (HTTPException 500 (exn_str e), w')"
  using assms by (simp add: query_def)

lemma query_store_success:
  assumes "py_truth (lib_truth lib) (vector_store m)"
    and "run_retrieval_qa lib m (PyStr (query_field request)) w = (Inr response, w')"
  shows "query lib m request w = (Return (PyDict [(''response'', response)]), w')"
  using assms by (simp add: query_def)

lemma query_store_not_400:
  assumes "py_truth (lib_truth lib) (vector_store m)"
  shows "fst (query lib m request w) \<noteq> HTTPException 400 d"
proof (cases "run_retrieval_qa lib m (PyStr (query_field request)) w")
  case (Pair r w')
  then show ?thesis
    using assms by (cases r) (simp_all add: query_store_failure query_store_success)
qed

lemma query_never_raises: "fst (query lib m request w) \<noteq> Raise e"
proof (cases "py_truth (lib_truth lib) (vector_store m)")
  case False
  then show ?thesis by (simp add: query_no_store)
next
  case True
  obtain r w' where run: "run_retrieval_qa lib m (PyStr (query_field request)) w = (r, w')"
    by (cases "run_retrieval_qa lib m (PyStr (query_field request)) w")
  with True show ?thesis
    by (cases r) (simp_all add: query_store_failure query_store_success)
qed

text \<open>
  C1. \<^verbatim>\<open>POST /query\<close> raises the \<^verbatim>\<open>HTTPException\<close> of status 400 exactly when
  \<open>vector_store\<close> is \<^verbatim>\<open>None\<close> or otherwise false. When the store is true, a
  failure of the retrieval chain (the exception of \<^verbatim>\<open>retrieval_qa.run\<close>, or the
  \<^verbatim>\<open>NameError\<close> of the unbound name) gives status 500 with the exception's text, and
  no outcome of the handler is a 400.
\<close>

theorem query_400_iff_no_vector_store:
  "((\<exists>d. fst (query lib m request w) = HTTPException 400 d)
      \<longleftrightarrow> \<not> py_truth (lib_truth lib) (vector_store m))
   \<and> (py_truth (lib_truth lib) (vector_store m) \<longrightarrow>
        (\<forall>e w'. run_retrieval_qa lib m (PyStr (query_field request)) w = (Inl e, w') \<longrightarrow>
           query lib m request w = (HTTPException 500 (exn_str e), w')))
   \<and> (py_truth (lib_truth lib) (vector_store m) \<longrightarrow>
        (\<forall>qa e w'. retrieval_qa m = Some qa \<longrightarrow>
           lib_method lib qa ''run'' [PyStr (query_field request)] [] w = (Inl e, w') \<longrightarrow>
           query lib m request w = (HTTPException 500 (exn_str e), w')))"
proof (intro conjI)
  show "(\<exists>d. fst (query lib m request w) = HTTPException 400 d)
          \<longleftrightarrow> \<not> py_truth (lib_truth lib) (vector_store m)"
    using query_no_store [of lib m request w] query_store_not_400 [of lib m request w]
    by auto
next
  show "py_truth (lib_truth lib) (vector_store m) \<longrightarrow>
          (\<forall>e w'. run_retrieval_qa lib m (PyStr (query_field request)) w = (Inl e, w') \<longrightarrow>
             query lib m request w = (HTTPException 500 (exn_str e), w'))"
    by (simp add: query_store_failure)
next
  show "py_truth (lib_truth lib) (vector_store m) \<longrightarrow>
          (\<forall>qa e w'. retrieval_qa m = Some qa \<longrightarrow>
             lib_method lib qa ''run'' [PyStr (query_field request)] [] w = (Inl e, w') \<longrightarrow>
             query lib m request w = (HTTPException 500 (exn_str e), w'))"
    by (simp add: query_store_failure run_retrieval_qa_def)
qed

theorem query_400_iff_no_vector_store_witness:
  "query echo_libs (demo_module PyNone None) \<lparr>query_field = ''q''\<rparr> []
     = (HTTPException 400 ''Vector store not initialized'', [])
   \<and> (\<exists>d. fst (query echo_libs (demo_module PyNone None) \<lparr>query_field = ''q''\<rparr> [])
            = HTTPException 400 d)
   \<and> py_truth (lib_truth (raising_libs ''run'' (Exn ''TimeoutError'' ''provider timed out'')))
        (vector_store (demo_module (PyObj ''Chroma'') (Some (PyObj ''RetrievalQA''))))
   \<and> query (raising_libs ''run'' (Exn ''TimeoutError'' ''provider timed out''))
        (demo_module (PyObj ''Chroma'') (Some (PyObj ''RetrievalQA''))) \<lparr>query_field = ''q''\<rparr> []
     = (HTTPException 500 ''provider timed out'', [])"
proof -
  let ?e = "Exn ''TimeoutError'' ''provider timed out''"
  let ?m = "demo_module (PyObj ''Chroma'') (Some (PyObj ''RetrievalQA''))"
  have none: "\<not> py_truth (lib_truth echo_libs) (vector_store (demo_module PyNone None))"
    by (simp add: echo_defs)
  have store: "py_truth (lib_truth (raising_libs ''run'' ?e)) (vector_store ?m)"
    by (simp add: echo_defs)
  have qa: "retrieval_qa ?m = Some (PyObj ''RetrievalQA'')"
    by (simp add: echo_defs)
  have run: "lib_method (raising_libs ''run'' ?e) (PyObj ''RetrievalQA'') ''run''
               [PyStr (query_field \<lparr>query_field = ''q''\<rparr>)] [] [] = (Inl ?e, [])"
    by (simp add: echo_defs)
  have "\<exists>d. fst (query echo_libs (demo_module PyNone None) \<lparr>query_field = ''q''\<rparr> [])
              = HTTPException 400 d"
    using query_400_iff_no_vector_store
            [of echo_libs "demo_module PyNone None" "\<lparr>query_field = ''q''\<rparr>" "[]"] none
    by blast
  moreover have "query (raising_libs ''run'' ?e) ?m \<lparr>query_field = ''q''\<rparr> []
                   = (HTTPException 500 (exn_str ?e), [])"
    using query_400_iff_no_vector_store
            [of "raising_libs ''run'' ?e" ?m "\<lparr>query_field = ''q''\<rparr>" "[]"] store qa run
    by blast
  moreover have "query echo_libs (demo_module PyNone None) \<lparr>query_field = ''q''\<rparr> []
                   = (HTTPException 400 ''Vector store not initialized'', [])"
    using none by (simp add: query_def)
  ultimately show ?thesis
    using store by simp
qed

section \<open>Start-up and the API key\<close>

lemma environ_get_missing:
  "environ os k = None \<or> environ os k = Some [] \<Longrightarrow> \<not> py_truth t (environ_get os k)"
  by (auto simp: environ_get_def)

lemma module_init_missing_key:
  assumes "environ os ''OPENAI_API_KEY'' = None \<or> environ os ''OPENAI_API_KEY'' = Some []"
  shows "module_init lib os w =
           (Inl (Exn ''ValueError'' ''OPENAI_API_KEY environment variable is not set''), [], w)"
  using environ_get_missing [OF assms, of "lib_truth lib"]
  by (simp add: module_init_def Let_def)

lemma initialize_langchain_no_key:
  assumes "api_key wd = []"
  shows "initialize_langchain lib wd s =
           (Inr (PyNone, PyNone),
            s\<lparr>st_ui := st_ui s @ [St_warning ''Please enter your OpenAI API key in the sidebar.'']\<rparr>)"
  using assms by (simp add: initialize_langchain_def io_bind_def io_return_def st_show_def)

text \<open>
  C2, as the code has it. In \<^verbatim>\<open>app.py\<close> a missing (or empty) \<^verbatim>\<open>OPENAI_API_KEY\<close>
  stops the import with a \<^verbatim>\<open>ValueError\<close>, before any call into the libraries and
  before any handler exists. The Streamlit page does not fail: without a key entered in the
  sidebar \<^verbatim>\<open>initialize_langchain\<close> shows a warning and returns \<^verbatim>\<open>(None, None)\<close>,
  whatever the environment holds, and builds no model object.
\<close>

theorem missing_key_fatal_for_app_warning_for_streamlit:
  "((environ os ''OPENAI_API_KEY'' = None \<or> environ os ''OPENAI_API_KEY'' = Some []) \<longrightarrow>
      module_init lib os w =
        (Inl (Exn ''ValueError'' ''OPENAI_API_KEY environment variable is not set''), [], w))
   \<and> (api_key wd = [] \<longrightarrow>
        initialize_langchain lib wd s =
          (Inr (PyNone, PyNone),
           s\<lparr>st_ui := st_ui s @ [St_warning ''Please enter your OpenAI API key in the sidebar.'']\<rparr>))"
  using module_init_missing_key [of os lib w] initialize_langchain_no_key [of wd lib s]
  by blast

theorem missing_key_fatal_for_app_warning_for_streamlit_witness:
  "environ bare_os ''OPENAI_API_KEY'' = None
   \<and> module_init echo_libs bare_os [] =
        (Inl (Exn ''ValueError'' ''OPENAI_API_KEY environment variable is not set''), [], [])
   \<and> api_key (demo_widgets [] None) = []
   \<and> fst (initialize_langchain echo_libs (demo_widgets [] None) (fresh_run bare_os))
        = Inr (PyNone, PyNone)
   \<and> st_ui (snd (initialize_langchain echo_libs (demo_widgets [] None) (fresh_run bare_os)))
        = [St_warning ''Please enter your OpenAI API key in the sidebar.'']"
proof -
  have absent: "environ bare_os ''OPENAI_API_KEY'' = None"
    by (simp add: bare_os_def)
  have nokey: "api_key (demo_widgets [] None) = []"
    by (simp add: demo_widgets_def)
  note both = missing_key_fatal_for_app_warning_for_streamlit
                [of bare_os echo_libs "[]" "demo_widgets [] None" "fresh_run bare_os"]
  have "module_init echo_libs bare_os [] =
          (Inl (Exn ''ValueError'' ''OPENAI_API_KEY environment variable is not set''), [], [])"
    using both absent by blast
  moreover have "initialize_langchain echo_libs (demo_widgets [] None) (fresh_run bare_os) =
      (Inr (PyNone, PyNone),
       (fresh_run bare_os)\<lparr>st_ui := st_ui (fresh_run bare_os) @
          [St_warning ''Please enter your OpenAI API key in the sidebar.'']\<rparr>)"
    using both nokey by blast
  ultimately show ?thesis
    using absent nokey by (simp add: fresh_run_def)
qed

text \<open>
  C2 as stated fails on the Streamlit page: on a machine without the variable and with no
  key entered, a run of the script with a chat message ends without an exception: it
  shows the message and two warnings, and calls no model.
\<close>

theorem streamlit_runs_without_key:
  "environ bare_os ''OPENAI_API_KEY'' = None
   \<and> fst (streamlit_app echo_libs (demo_widgets [] (Some ''hello'')) (fresh_run bare_os)) = Inr ()
   \<and> st_ui (snd (streamlit_app echo_libs (demo_widgets [] (Some ''hello'')) (fresh_run bare_os)))
        = [St_chat_message ''user'', St_markdown (PyStr ''hello''),
           St_chat_message ''assistant'',
           St_warning ''Please enter your OpenAI API key in the sidebar.'',
           St_warning ''Please configure your API key to continue.'']
   \<and> st_world (snd (streamlit_app echo_libs (demo_widgets [] (Some ''hello'')) (fresh_run bare_os)))
        = []"
  by (simp add: streamlit_app_def page_setup_def chat_section_def rag_section_def
        new_st_callback_def initialize_langchain_def messages_append_def st_show_def st_lib_def
        io_bind_def io_return_def echo_defs Let_def)

section \<open>Exceptions of the library calls\<close>

lemma chat_failure:
  assumes "lib_method lib (conversation m) ''predict'' [] [(''input'', PyStr (message request))] w
             = (Inl e, w')"
  shows "chat lib m request w = (HTTPException 500 (exn_str e), w')"
  using assms by (simp add: chat_def)

lemma chat_success:
  assumes "lib_method lib (conversation m) ''predict'' [] [(''input'', PyStr (message request))] w
             = (Inr response, w')"
  shows "chat lib m request w =
           (Return (PyDict [(''response'', response),
                            (''session_id'', py_optional_str (session_id request))]), w')"
  using assms by (simp add: chat_def)

lemma chat_never_raises: "fst (chat lib m request w) \<noteq> Raise e"
proof -
  obtain r w' where
    "lib_method lib (conversation m) ''predict'' [] [(''input'', PyStr (message request))] w = (r, w')"
    by (cases "lib_method lib (conversation m) ''predict'' [] [(''input'', PyStr (message request))] w")
  then show ?thesis
    by (cases r) (simp_all add: chat_failure chat_success)
qed

lemma app_lambda_handler_failure:
  assumes "lib_method lib (conversation m) ''predict'' []
             [(''input'', dict_get event ''message'' (PyStr ''''))] w = (Inl e, w')"
  shows "app_lambda_handler lib m event w = (Raise e, w')"
  using assms by (simp add: app_lambda_handler_def Let_def)

lemma app_lambda_handler_success:
  assumes "lib_method lib (conversation m) ''predict'' []
             [(''input'', dict_get event ''message'' (PyStr ''''))] w = (Inr response, w')"
  shows "app_lambda_handler lib m event w =
           (Return (PyDict [(''statusCode'', PyInt 200),
                            (''body'', PyDict [(''response'', response),
                               (''session_id'', dict_get event ''session_id'' (PyStr ''default''))])]),
            w')"
  using assms by (simp add: app_lambda_handler_def Let_def)

lemma deploy_aws_Bedrock_raises:
  assumes "lib_call lib ''Bedrock'' []
             [(''model_id'', PyStr ''anthropic.claude-v2''), (''region_name'', PyStr ''us-east-1'')] w
           = (Inl e, w')"
  shows "deploy_aws_lambda_handler lib event w = (Raise e, w')"
  using assms
  by (simp add: deploy_aws_lambda_handler_def deploy_aws_predict_def propagate_def io_bind_def)

lemma deploy_aws_history_raises:
  assumes "lib_call lib ''Bedrock'' []
             [(''model_id'', PyStr ''anthropic.claude-v2''), (''region_name'', PyStr ''us-east-1'')] w
           = (Inr bedrock, w1)"
    and "lib_call lib ''DynamoDBChatMessageHistory'' []
           [(''table_name'', PyStr ''langchain-chat-history''),
            (''session_id'', dict_get event ''session_id'' (PyStr ''default''))] w1
         = (Inl e, w')"
  shows "deploy_aws_lambda_handler lib event w = (Raise e, w')"
  using assms
  by (simp add: deploy_aws_lambda_handler_def deploy_aws_predict_def propagate_def io_bind_def
        Let_def)

lemma deploy_aws_chain_raises:
  assumes "lib_call lib ''Bedrock'' []
             [(''model_id'', PyStr ''anthropic.claude-v2''), (''region_name'', PyStr ''us-east-1'')] w
           = (Inr bedrock, w1)"
    and "lib_call lib ''DynamoDBChatMessageHistory'' []
           [(''table_name'', PyStr ''langchain-chat-history''),
            (''session_id'', dict_get event ''session_id'' (PyStr ''default''))] w1
         = (Inr history, w2)"
    and "lib_call lib ''ConversationChain'' [] [(''llm'', bedrock), (''memory'', history)] w2
         = (Inl e, w')"
  shows "deploy_aws_lambda_handler lib event w = (Raise e, w')"
  using assms
  by (simp add: deploy_aws_lambda_handler_def deploy_aws_predict_def propagate_def io_bind_def
        Let_def)

lemma deploy_aws_predict_raises:
  assumes "lib_call lib ''Bedrock'' []
             [(''model_id'', PyStr ''anthropic.claude-v2''), (''region_name'', PyStr ''us-east-1'')] w
           = (Inr bedrock, w1)"
    and "lib_call lib ''DynamoDBChatMessageHistory'' []
           [(''table_name'', PyStr ''langchain-chat-history''),
            (''session_id'', dict_get event ''session_id'' (PyStr ''default''))] w1
         = (Inr history, w2)"
    and "lib_call lib ''ConversationChain'' [] [(''llm'', bedrock), (''memory'', history)] w2
         = (Inr chain, w3)"
    and "lib_method lib chain ''predict'' [] [(''input'', dict_get event ''message'' (PyStr ''''))] w3
         = (Inl e, w')"
  shows "deploy_aws_lambda_handler lib event w = (Raise e, w')"
  using assms
  by (simp add: deploy_aws_lambda_handler_def deploy_aws_predict_def propagate_def io_bind_def
        Let_def)

lemma deploy_aws_dumps_raises:
  assumes "lib_call lib ''Bedrock'' []
             [(''model_id'', PyStr ''anthropic.claude-v2''), (''region_name'', PyStr ''us-east-1'')] w
           = (Inr bedrock, w1)"
    and "lib_call lib ''DynamoDBChatMessageHistory'' []
           [(''table_name'', PyStr ''langchain-chat-history''),
            (''session_id'', dict_get event ''session_id'' (PyStr ''default''))] w1
         = (Inr history, w2)"
    and "lib_call lib ''ConversationChain'' [] [(''llm'', bedrock), (''memory'', history)] w2
         = (Inr chain, w3)"
    and "lib_method lib chain ''predict'' [] [(''input'', dict_get event ''message'' (PyStr ''''))] w3
         = (Inr response, w4)"
    and "lib_call lib ''json.dumps''
           [PyDict [(''response'', response),
                    (''session_id'', dict_get event ''session_id'' (PyStr ''default''))]] [] w4
         = (Inl e, w')"
  shows "deploy_aws_lambda_handler lib event w = (Raise e, w')"
  using assms
  by (simp add: deploy_aws_lambda_handler_def deploy_aws_predict_def propagate_def io_bind_def
        io_return_def Let_def)

lemma deploy_aws_returns:
  assumes "lib_call lib ''Bedrock'' []
             [(''model_id'', PyStr ''anthropic.claude-v2''), (''region_name'', PyStr ''us-east-1'')] w
           = (Inr bedrock, w1)"
    and "lib_call lib ''DynamoDBChatMessageHistory'' []
           [(''table_name'', PyStr ''langchain-chat-history''),
            (''session_id'', dict_get event ''session_id'' (PyStr ''default''))] w1
         = (Inr history, w2)"
    and "lib_call lib ''ConversationChain'' [] [(''llm'', bedrock), (''memory'', history)] w2
         = (Inr chain, w3)"
    and "lib_method lib chain ''predict'' [] [(''input'', dict_get event ''message'' (PyStr ''''))] w3
         = (Inr response, w4)"
    and "lib_call lib ''json.dumps''
           [PyDict [(''response'', response),
                    (''session_id'', dict_get event ''session_id'' (PyStr ''default''))]] [] w4
         = (Inr body, w5)"
  shows "deploy_aws_lambda_handler lib event w =
           (Return (PyDict [(''statusCode'', PyInt 200), (''body'', body)]), w5)"
  using assms
  by (simp add: deploy_aws_lambda_handler_def deploy_aws_predict_def propagate_def io_bind_def
        io_return_def Let_def)

lemma query_unbound_chain:
  assumes "py_truth (lib_truth lib) (vector_store m)" and "retrieval_qa m = None"
  shows "query lib m request w = (HTTPException 500 ''name 'retrieval_qa' is not defined'', w)"
  using assms by (simp add: query_def run_retrieval_qa_def)

lemma query_run_raises:
  assumes "py_truth (lib_truth lib) (vector_store m)" and "retrieval_qa m = Some qa"
    and "lib_method lib qa ''run'' [PyStr (query_field request)] [] w = (Inl e, w')"
  shows "query lib m request w = (HTTPException 500 (exn_str e), w')"
  using assms by (simp add: query_def run_retrieval_qa_def)


text \<open>
  C3, as the code has it. The two HTTP handlers catch: whatever exception the library call
  raises, \<^verbatim>\<open>chat\<close> and \<^verbatim>\<open>query\<close> raise the \<^verbatim>\<open>HTTPException\<close> of status 500 whose
  detail is the exception's text, whatever its class, and no other exception leaves them.
  The two Lambda handlers have no \<^verbatim>\<open>try\<close>: the exception of a library call leaves
  the handler as it is. For \<^verbatim>\<open>deploy_aws.py\<close> that is each of its calls in turn:
  \<^verbatim>\<open>Bedrock\<close>, \<^verbatim>\<open>DynamoDBChatMessageHistory\<close>, \<^verbatim>\<open>ConversationChain\<close>,
  \<^verbatim>\<open>conversation.predict\<close> and \<^verbatim>\<open>json.dumps\<close>.
\<close>

theorem http_handlers_catch_lambda_handlers_propagate:
  "(\<forall>e w'. lib_method lib (conversation m) ''predict'' [] [(''input'', PyStr (message request))] w
              = (Inl e, w') \<longrightarrow>
            chat lib m request w = (HTTPException 500 (exn_str e), w'))
   \<and> (\<forall>e. fst (chat lib m request w) \<noteq> Raise e)
   \<and> (\<forall>qa e w'. py_truth (lib_truth lib) (vector_store m) \<longrightarrow>
         retrieval_qa m = Some qa \<longrightarrow>
         lib_method lib qa ''run'' [PyStr (query_field qrequest)] [] w = (Inl e, w') \<longrightarrow>
         query lib m qrequest w = (HTTPException 500 (exn_str e), w'))
   \<and> (py_truth (lib_truth lib) (vector_store m) \<longrightarrow> retrieval_qa m = None \<longrightarrow>
         query lib m qrequest w = (HTTPException 500 ''name 'retrieval_qa' is not defined'', w))
   \<and> (\<forall>e. fst (query lib m qrequest w) \<noteq> Raise e)
   \<and> (\<forall>e w'. lib_method lib (conversation m) ''predict'' []
                [(''input'', dict_get event ''message'' (PyStr ''''))] w = (Inl e, w') \<longrightarrow>
              app_lambda_handler lib m event w = (Raise e, w'))
   \<and> (\<forall>e w'.
         lib_call lib ''Bedrock'' []
           [(''model_id'', PyStr ''anthropic.claude-v2''), (''region_name'', PyStr ''us-east-1'')] w
           = (Inl e, w') \<longrightarrow>
         deploy_aws_lambda_handler lib event w = (Raise e, w'))
   \<and> (\<forall>bedrock w1 e w'.
         lib_call lib ''Bedrock'' []
           [(''model_id'', PyStr ''anthropic.claude-v2''), (''region_name'', PyStr ''us-east-1'')] w
           = (Inr bedrock, w1) \<longrightarrow>
         lib_call lib ''DynamoDBChatMessageHistory'' []
           [(''table_name'', PyStr ''langchain-chat-history''),
            (''session_id'', dict_get event ''session_id'' (PyStr ''default''))] w1
           = (Inl e, w') \<longrightarrow>
         deploy_aws_lambda_handler lib event w = (Raise e, w'))
   \<and> (\<forall>bedrock w1 history w2 e w'.
         lib_call lib ''Bedrock'' []
           [(''model_id'', PyStr ''anthropic.claude-v2''), (''region_name'', PyStr ''us-east-1'')] w
           = (Inr bedrock, w1) \<longrightarrow>
         lib_call lib ''DynamoDBChatMessageHistory'' []
           [(''table_name'', PyStr ''langchain-chat-history''),
            (''session_id'', dict_get event ''session_id'' (PyStr ''default''))] w1
           = (Inr history, w2) \<longrightarrow>
         lib_call lib ''ConversationChain'' [] [(''llm'', bedrock), (''memory'', history)] w2
           = (Inl e, w') \<longrightarrow>
         deploy_aws_lambda_handler lib event w = (Raise e, w'))
   \<and> (\<forall>bedrock w1 history w2 chain w3 e w'.
         lib_call lib ''Bedrock'' []
           [(''model_id'', PyStr ''anthropic.claude-v2''), (''region_name'', PyStr ''us-east-1'')] w
           = (Inr bedrock, w1) \<longrightarrow>
         lib_call lib ''DynamoDBChatMessageHistory'' []
           [(''table_name'', PyStr ''langchain-chat-history''),
            (''session_id'', dict_get event ''session_id'' (PyStr ''default''))] w1
           = (Inr history, w2) \<longrightarrow>
         lib_call lib ''ConversationChain'' [] [(''llm'', bedrock), (''memory'', history)] w2
           = (Inr chain, w3) \<longrightarrow>
         lib_method lib chain ''predict'' []
           [(''input'', dict_get event ''message'' (PyStr ''''))] w3 = (Inl e, w') \<longrightarrow>
         deploy_aws_lambda_handler lib event w = (Raise e, w'))
   \<and> (\<forall>bedrock w1 history w2 chain w3 response w4 e w'.
         lib_call lib ''Bedrock'' []
           [(''model_id'', PyStr ''anthropic.claude-v2''), (''region_name'', PyStr ''us-east-1'')] w
           = (Inr bedrock, w1) \<longrightarrow>
         lib_call lib ''DynamoDBChatMessageHistory'' []
           [(''table_name'', PyStr ''langchain-chat-history''),
            (''session_id'', dict_get event ''session_id'' (PyStr ''default''))] w1
           = (Inr history, w2) \<longrightarrow>
         lib_call lib ''ConversationChain'' [] [(''llm'', bedrock), (''memory'', history)] w2
           = (Inr chain, w3) \<longrightarrow>
         lib_method lib chain ''predict'' []
           [(''input'', dict_get event ''message'' (PyStr ''''))] w3 = (Inr response, w4) \<longrightarrow>
         lib_call lib ''json.dumps''
           [PyDict [(''response'', response),
                    (''session_id'', dict_get event ''session_id'' (PyStr ''default''))]] [] w4
           = (Inl e, w') \<longrightarrow>
         deploy_aws_lambda_handler lib event w = (Raise e, w'))"
proof (intro conjI allI impI)
  fix e w'
  assume "lib_method lib (conversation m) ''predict'' [] [(''input'', PyStr (message request))] w
            = (Inl e, w')"
  then show "chat lib m request w = (HTTPException 500 (exn_str e), w')"
    by (rule chat_failure)
next
  fix e show "fst (chat lib m request w) \<noteq> Raise e"
    by (rule chat_never_raises)
next
  fix qa e w'
  assume "py_truth (lib_truth lib) (vector_store m)" and "retrieval_qa m = Some qa"
    and "lib_method lib qa ''run'' [PyStr (query_field qrequest)] [] w = (Inl e, w')"
  then show "query lib m qrequest w = (HTTPException 500 (exn_str e), w')"
    by (rule query_run_raises)
next
  assume "py_truth (lib_truth lib) (vector_store m)" and "retrieval_qa m = None"
  then show "query lib m qrequest w = (HTTPException 500 ''name 'retrieval_qa' is not defined'', w)"
    by (rule query_unbound_chain)
next
  fix e show "fst (query lib m qrequest w) \<noteq> Raise e"
    by (rule query_never_raises)
next
  fix e w'
  assume "lib_method lib (conversation m) ''predict'' []
            [(''input'', dict_get event ''message'' (PyStr ''''))] w = (Inl e, w')"
  then show "app_lambda_handler lib m event w = (Raise e, w')"
    by (rule app_lambda_handler_failure)
next
  fix e w'
  assume "lib_call lib ''Bedrock'' []
            [(''model_id'', PyStr ''anthropic.claude-v2''), (''region_name'', PyStr ''us-east-1'')] w
          = (Inl e, w')"
  then show "deploy_aws_lambda_handler lib event w = (Raise e, w')"
    by (rule deploy_aws_Bedrock_raises)
next
  fix bedrock w1 e w'
  assume "lib_call lib ''Bedrock'' []
            [(''model_id'', PyStr ''anthropic.claude-v2''), (''region_name'', PyStr ''us-east-1'')] w
          = (Inr bedrock, w1)"
    and "lib_call lib ''DynamoDBChatMessageHistory'' []
           [(''table_name'', PyStr ''langchain-chat-history''),
            (''session_id'', dict_get event ''session_id'' (PyStr ''default''))] w1
         = (Inl e, w')"
  then show "deploy_aws_lambda_handler lib event w = (Raise e, w')"
    by (rule deploy_aws_history_raises)
next
  fix bedrock w1 history w2 e w'
  assume "lib_call lib ''Bedrock'' []
            [(''model_id'', PyStr ''anthropic.claude-v2''), (''region_name'', PyStr ''us-east-1'')] w
          = (Inr bedrock, w1)"
    and "lib_call lib ''DynamoDBChatMessageHistory'' []
           [(''table_name'', PyStr ''langchain-chat-history''),
            (''session_id'', dict_get event ''session_id'' (PyStr ''default''))] w1
         = (Inr history, w2)"
    and "lib_call lib ''ConversationChain'' [] [(''llm'', bedrock), (''memory'', history)] w2
         = (Inl e, w')"
  then show "deploy_aws_lambda_handler lib event w = (Raise e, w')"
    by (rule deploy_aws_chain_raises)
next
  fix bedrock w1 history w2 chain w3 e w'
  assume "lib_call lib ''Bedrock'' []
            [(''model_id'', PyStr ''anthropic.claude-v2''), (''region_name'', PyStr ''us-east-1'')] w
          = (Inr bedrock, w1)"
    and "lib_call lib ''DynamoDBChatMessageHistory'' []
           [(''table_name'', PyStr ''langchain-chat-history''),
            (''session_id'', dict_get event ''session_id'' (PyStr ''default''))] w1
         = (Inr history, w2)"
    and "lib_call lib ''ConversationChain'' [] [(''llm'', bedrock), (''memory'', history)] w2
         = (Inr chain, w3)"
    and "lib_method lib chain ''predict'' []
           [(''input'', dict_get event ''message'' (PyStr ''''))] w3 = (Inl e, w')"
  then show "deploy_aws_lambda_handler lib event w = (Raise e, w')"
    by (rule deploy_aws_predict_raises)
next
  fix bedrock w1 history w2 chain w3 response w4 e w'
  assume "lib_call lib ''Bedrock'' []
            [(''model_id'', PyStr ''anthropic.claude-v2''), (''region_name'', PyStr ''us-east-1'')] w
          = (Inr bedrock, w1)"
    and "lib_call lib ''DynamoDBChatMessageHistory'' []
           [(''table_name'', PyStr ''langchain-chat-history''),
            (''session_id'', dict_get event ''session_id'' (PyStr ''default''))] w1
         = (Inr history, w2)"
    and "lib_call lib ''ConversationChain'' [] [(''llm'', bedrock), (''memory'', history)] w2
         = (Inr chain, w3)"
    and "lib_method lib chain ''predict'' []
           [(''input'', dict_get event ''message'' (PyStr ''''))] w3 = (Inr response, w4)"
    and "lib_call lib ''json.dumps''
           [PyDict [(''response'', response),
                    (''session_id'', dict_get event ''session_id'' (PyStr ''default''))]] [] w4
         = (Inl e, w')"
  then show "deploy_aws_lambda_handler lib event w = (Raise e, w')"
    by (rule deploy_aws_dumps_raises)
qed

theorem http_handlers_catch_lambda_handlers_propagate_witness:
  "chat (raising_libs ''predict'' (Exn ''ConnectionError'' ''provider unreachable''))
     (demo_module (PyObj ''Chroma'') (Some (PyObj ''RetrievalQA'')))
     \<lparr>message = ''hi'', session_id = Some ''s1''\<rparr> []
     = (HTTPException 500 ''provider unreachable'', [])
   \<and> app_lambda_handler (raising_libs ''predict'' (Exn ''ConnectionError'' ''provider unreachable''))
       (demo_module (PyObj ''Chroma'') (Some (PyObj ''RetrievalQA''))) [''message'' \<mapsto> PyStr ''hi''] []
     = (Raise (Exn ''ConnectionError'' ''provider unreachable''), [])
   \<and> deploy_aws_lambda_handler
       (raising_libs ''predict'' (Exn ''ConnectionError'' ''provider unreachable''))
       [''message'' \<mapsto> PyStr ''hi''] []
     = (Raise (Exn ''ConnectionError'' ''provider unreachable''), [])
   \<and> query (raising_libs ''run'' (Exn ''KeyError'' ''collection''))
       (demo_module (PyObj ''Chroma'') (Some (PyObj ''RetrievalQA''))) \<lparr>query_field = ''q''\<rparr> []
     = (HTTPException 500 ''collection'', [])
   \<and> deploy_aws_lambda_handler (raising_libs ''Bedrock'' (Exn ''KeyError'' ''collection''))
       [''message'' \<mapsto> PyStr ''hi''] []
     = (Raise (Exn ''KeyError'' ''collection''), [])"
proof -
  let ?e = "Exn ''ConnectionError'' ''provider unreachable''"
  let ?k = "Exn ''KeyError'' ''collection''"
  let ?lib = "raising_libs ''predict'' ?e"
  let ?m = "demo_module (PyObj ''Chroma'') (Some (PyObj ''RetrievalQA''))"
  let ?r = "\<lparr>message = ''hi'', session_id = Some ''s1''\<rparr>"
  let ?q = "\<lparr>query_field = ''q''\<rparr>"
  let ?ev = "[''message'' \<mapsto> PyStr ''hi''] :: string \<rightharpoonup> string pyval"
  note predict = http_handlers_catch_lambda_handlers_propagate [of ?lib ?m ?r "[]" ?q ?ev]
  note run = http_handlers_catch_lambda_handlers_propagate
               [of "raising_libs ''run'' ?k" ?m ?r "[]" ?q ?ev]
  note bedrock = http_handlers_catch_lambda_handlers_propagate
                   [of "raising_libs ''Bedrock'' ?k" ?m ?r "[]" ?q ?ev]
  have p1: "lib_method ?lib (conversation ?m) ''predict'' [] [(''input'', PyStr (message ?r))] []
              = (Inl ?e, [])"
    by (simp add: raising_libs_def)
  have p2: "lib_method ?lib (conversation ?m) ''predict'' []
              [(''input'', dict_get ?ev ''message'' (PyStr ''''))] [] = (Inl ?e, [])"
    by (simp add: raising_libs_def)
  have d1: "lib_call ?lib ''Bedrock'' []
              [(''model_id'', PyStr ''anthropic.claude-v2''), (''region_name'', PyStr ''us-east-1'')] []
            = (Inr (PyObj ''Bedrock''), [])"
    by (simp add: echo_defs)
  have d2: "lib_call ?lib ''DynamoDBChatMessageHistory'' []
              [(''table_name'', PyStr ''langchain-chat-history''),
               (''session_id'', dict_get ?ev ''session_id'' (PyStr ''default''))] []
            = (Inr (PyObj ''DynamoDBChatMessageHistory''), [])"
    by (simp add: echo_defs)
  have d3: "lib_call ?lib ''ConversationChain'' []
              [(''llm'', PyObj ''Bedrock''), (''memory'', PyObj ''DynamoDBChatMessageHistory'')] []
            = (Inr (PyObj ''ConversationChain''), [])"
    by (simp add: echo_defs)
  have d4: "lib_method ?lib (PyObj ''ConversationChain'') ''predict'' []
              [(''input'', dict_get ?ev ''message'' (PyStr ''''))] [] = (Inl ?e, [])"
    by (simp add: raising_libs_def)
  have q1: "py_truth (lib_truth (raising_libs ''run'' ?k)) (vector_store ?m)"
    by (simp add: echo_defs)
  have q2: "retrieval_qa ?m = Some (PyObj ''RetrievalQA'')"
    by (simp add: echo_defs)
  have q3: "lib_method (raising_libs ''run'' ?k) (PyObj ''RetrievalQA'') ''run''
              [PyStr (query_field ?q)] [] [] = (Inl ?k, [])"
    by (simp add: raising_libs_def)
  have b1: "lib_call (raising_libs ''Bedrock'' ?k) ''Bedrock'' []
              [(''model_id'', PyStr ''anthropic.claude-v2''), (''region_name'', PyStr ''us-east-1'')] []
            = (Inl ?k, [])"
    by (simp add: raising_libs_def)
  have "chat ?lib ?m ?r [] = (HTTPException 500 (exn_str ?e), [])"
    using predict p1 by simp
  moreover have "app_lambda_handler ?lib ?m ?ev [] = (Raise ?e, [])"
    using predict p2 by simp
  moreover have "deploy_aws_lambda_handler ?lib ?ev [] = (Raise ?e, [])"
    using predict d1 d2 d3 d4 by simp
  moreover have "query (raising_libs ''run'' ?k) ?m ?q [] = (HTTPException 500 (exn_str ?k), [])"
    using run q1 q2 q3 by simp
  moreover have "deploy_aws_lambda_handler (raising_libs ''Bedrock'' ?k) ?ev [] = (Raise ?k, [])"
    using bedrock b1 by simp
  ultimately show ?thesis by simp
qed


text \<open>
  C3 as stated fails on the Lambda handler of \<^verbatim>\<open>app.py\<close>: when
  \<^verbatim>\<open>conversation.predict\<close> raises, the exception leaves the handler uncaught.
\<close>

theorem app_lambda_handler_lets_exception_escape:
  "app_lambda_handler (raising_libs ''predict'' (Exn ''RuntimeError'' ''provider down''))
     (demo_module PyNone None) [''message'' \<mapsto> PyStr ''hi'', ''session_id'' \<mapsto> PyStr ''s1''] []
     = (Raise (Exn ''RuntimeError'' ''provider down''), [])"
  by (simp add: app_lambda_handler_def raising_libs_def Let_def)

section \<open>The chat and health endpoints\<close>

lemma item_PyDict: "item (PyDict kvs) k = map_of kvs k"
  by (simp add: item_def)

lemma chat_Return:
  assumes "chat lib m request w = (Return d, w')"
  shows "\<exists>response.
           lib_method lib (conversation m) ''predict'' [] [(''input'', PyStr (message request))] w
             = (Inr response, w')
           \<and> d = PyDict [(''response'', response),
                          (''session_id'', py_optional_str (session_id request))]"
proof -
  obtain r w1 where predict:
    "lib_method lib (conversation m) ''predict'' [] [(''input'', PyStr (message request))] w = (r, w1)"
    by (cases "lib_method lib (conversation m) ''predict'' [] [(''input'', PyStr (message request))] w")
  show ?thesis
  proof (cases r)
    case (Inl e)
    with predict assms show ?thesis by (simp add: chat_failure)
  next
    case (Inr response)
    with predict assms show ?thesis by (simp add: chat_success)
  qed
qed

text \<open>
  C4. Whenever \<^verbatim>\<open>POST /chat\<close> returns a response, its \<^verbatim>\<open>session_id\<close> is the
  \<^verbatim>\<open>session_id\<close> of the request, as it was supplied.
\<close>

theorem chat_echoes_session_id:
  assumes "chat lib m request w = (Return d, w')"
  shows "item d ''session_id'' = Some (py_optional_str (session_id request))"
proof -
  from chat_Return [OF assms] obtain response where
    "d = PyDict [(''response'', response), (''session_id'', py_optional_str (session_id request))]"
    by blast
  then show ?thesis by (simp add: item_PyDict)
qed

theorem chat_echoes_session_id_witness:
  "\<exists>d. chat echo_libs (demo_module PyNone None) \<lparr>message = ''hi'', session_id = Some ''abc''\<rparr> []
          = (Return d, [''hi''])
       \<and> item d ''response'' = Some (PyStr ''echo: hi'')
       \<and> item d ''session_id'' = Some (PyStr ''abc'')"
proof -
  let ?d = "PyDict [(''response'', PyStr ''echo: hi''), (''session_id'', PyStr ''abc'')] :: string pyval"
  have run: "chat echo_libs (demo_module PyNone None) \<lparr>message = ''hi'', session_id = Some ''abc''\<rparr> []
               = (Return ?d, [''hi''])"
    by (simp add: chat_def echo_defs py_optional_str_def)
  from chat_echoes_session_id [OF run]
  have "item ?d ''session_id'' = Some (PyStr ''abc'')"
    by (simp add: py_optional_str_def)
  moreover have "item ?d ''response'' = Some (PyStr ''echo: hi'')"
    by (simp add: item_PyDict)
  ultimately show ?thesis
    using run by blast
qed

text \<open>
  C5. \<^verbatim>\<open>GET /health\<close> always returns, with the status \<^verbatim>\<open>"healthy"\<close> and the
  version of the application, and leaves the world as it is: it raises nothing and has
  no other status.
\<close>

theorem health_check_healthy:
  "\<exists>d. health_check m w = (Return d, w)
       \<and> item d ''status'' = Some (PyStr ''healthy'')
       \<and> item d ''version'' = Some (PyStr (version (app m)))"
  by (simp add: health_check_def item_PyDict)

lemma module_init_version:
  assumes "module_init lib os w = (Inr m, printed, w')"
  shows "version (app m) = ''1.0''"
  using assms
  by (auto simp: module_init_def Let_def add_middleware_def FastAPI_def
           split: if_splits prod.splits sum.splits)

section \<open>The Lambda handlers\<close>

text \<open>
  C6, as the code has it. When the calls into the libraries return, the Lambda handler of
  \<^verbatim>\<open>app.py\<close> returns \<^verbatim>\<open>statusCode\<close> 200 and a body that is the dictionary of
  the model's answer and the event's \<^verbatim>\<open>session_id\<close> (\<^verbatim>\<open>"default"\<close> for an
  event without one); the handler of \<^verbatim>\<open>deploy_aws.py\<close> returns \<^verbatim>\<open>statusCode\<close>
  200 and, as its body, the text \<^verbatim>\<open>json.dumps\<close> makes of that dictionary, where the
  answer is what \<^verbatim>\<open>predict\<close> returns on the chain built over Bedrock and the
  session's history, for the event's \<^verbatim>\<open>message\<close> (\<^verbatim>\<open>""\<close> for an event without
  one). When a call into the libraries raises, neither handler returns a record: the
  exception leaves the handler.
\<close>

theorem lambda_handlers_result:
  "(\<forall>response w'.
      lib_method lib (conversation m) ''predict'' []
        [(''input'', dict_get event ''message'' (PyStr ''''))] w = (Inr response, w') \<longrightarrow>
      app_lambda_handler lib m event w =
        (Return (PyDict [(''statusCode'', PyInt 200),
                         (''body'', PyDict [(''response'', response),
                            (''session_id'', dict_get event ''session_id'' (PyStr ''default''))])]),
         w'))
   \<and> (\<forall>e w'.
        lib_method lib (conversation m) ''predict'' []
          [(''input'', dict_get event ''message'' (PyStr ''''))] w = (Inl e, w') \<longrightarrow>
        app_lambda_handler lib m event w = (Raise e, w'))
   \<and> (\<forall>bedrock w1 history w2 chain w3 response w4 body w5.
         lib_call lib ''Bedrock'' []
           [(''model_id'', PyStr ''anthropic.claude-v2''), (''region_name'', PyStr ''us-east-1'')] w
           = (Inr bedrock, w1) \<longrightarrow>
         lib_call lib ''DynamoDBChatMessageHistory'' []
           [(''table_name'', PyStr ''langchain-chat-history''),
            (''session_id'', dict_get event ''session_id'' (PyStr ''default''))] w1
           = (Inr history, w2) \<longrightarrow>
         lib_call lib ''ConversationChain'' [] [(''llm'', bedrock), (''memory'', history)] w2
           = (Inr chain, w3) \<longrightarrow>
         lib_method lib chain ''predict'' []
           [(''input'', dict_get event ''message'' (PyStr ''''))] w3 = (Inr response, w4) \<longrightarrow>
         lib_call lib ''json.dumps''
           [PyDict [(''response'', response),
                    (''session_id'', dict_get event ''session_id'' (PyStr ''default''))]] [] w4
           = (Inr body, w5) \<longrightarrow>
         deploy_aws_lambda_handler lib event w =
           (Return (PyDict [(''statusCode'', PyInt 200), (''body'', body)]), w5))
   \<and> (\<forall>e w'.
         lib_call lib ''Bedrock'' []
           [(''model_id'', PyStr ''anthropic.claude-v2''), (''region_name'', PyStr ''us-east-1'')] w
           = (Inl e, w') \<longrightarrow>
         deploy_aws_lambda_handler lib event w = (Raise e, w'))
   \<and> (\<forall>bedrock w1 e w'.
         lib_call lib ''Bedrock'' []
           [(''model_id'', PyStr ''anthropic.claude-v2''), (''region_name'', PyStr ''us-east-1'')] w
           = (Inr bedrock, w1) \<longrightarrow>
         lib_call lib ''DynamoDBChatMessageHistory'' []
           [(''table_name'', PyStr ''langchain-chat-history''),
            (''session_id'', dict_get event ''session_id'' (PyStr ''default''))] w1
           = (Inl e, w') \<longrightarrow>
         deploy_aws_lambda_handler lib event w = (Raise e, w'))
   \<and> (\<forall>bedrock w1 history w2 e w'.
         lib_call lib ''Bedrock'' []
           [(''model_id'', PyStr ''anthropic.claude-v2''), (''region_name'', PyStr ''us-east-1'')] w
           = (Inr bedrock, w1) \<longrightarrow>
         lib_call lib ''DynamoDBChatMessageHistory'' []
           [(''table_name'', PyStr ''langchain-chat-history''),
            (''session_id'', dict_get event ''session_id'' (PyStr ''default''))] w1
           = (Inr history, w2) \<longrightarrow>
         lib_call lib ''ConversationChain'' [] [(''llm'', bedrock), (''memory'', history)] w2
           = (Inl e, w') \<longrightarrow>
         deploy_aws_lambda_handler lib event w = (Raise e, w'))
   \<and> (\<forall>bedrock w1 history w2 chain w3 e w'.
         lib_call lib ''Bedrock'' []
           [(''model_id'', PyStr ''anthropic.claude-v2''), (''region_name'', PyStr ''us-east-1'')] w
           = (Inr bedrock, w1) \<longrightarrow>
         lib_call lib ''DynamoDBChatMessageHistory'' []
           [(''table_name'', PyStr ''langchain-chat-history''),
            (''session_id'', dict_get event ''session_id'' (PyStr ''default''))] w1
           = (Inr history, w2) \<longrightarrow>
         lib_call lib ''ConversationChain'' [] [(''llm'', bedrock), (''memory'', history)] w2
           = (Inr chain, w3) \<longrightarrow>
         lib_method lib chain ''predict'' []
           [(''input'', dict_get event ''message'' (PyStr ''''))] w3 = (Inl e, w') \<longrightarrow>
         deploy_aws_lambda_handler lib event w = (Raise e, w'))
   \<and> (\<forall>bedrock w1 history w2 chain w3 response w4 e w'.
         lib_call lib ''Bedrock'' []
           [(''model_id'', PyStr ''anthropic.claude-v2''), (''region_name'', PyStr ''us-east-1'')] w
           = (Inr bedrock, w1) \<longrightarrow>
         lib_call lib ''DynamoDBChatMessageHistory'' []
           [(''table_name'', PyStr ''langchain-chat-history''),
            (''session_id'', dict_get event ''session_id'' (PyStr ''default''))] w1
           = (Inr history, w2) \<longrightarrow>
         lib_call lib ''ConversationChain'' [] [(''llm'', bedrock), (''memory'', history)] w2
           = (Inr chain, w3) \<longrightarrow>
         lib_method lib chain ''predict'' []
           [(''input'', dict_get event ''message'' (PyStr ''''))] w3 = (Inr response, w4) \<longrightarrow>
         lib_call lib ''json.dumps''
           [PyDict [(''response'', response),
                    (''session_id'', dict_get event ''session_id'' (PyStr ''default''))]] [] w4
           = (Inl e, w') \<longrightarrow>
         deploy_aws_lambda_handler lib event w = (Raise e, w'))"
proof (intro conjI allI impI)
  fix response w'
  assume "lib_method lib (conversation m) ''predict'' []
            [(''input'', dict_get event ''message'' (PyStr ''''))] w = (Inr response, w')"
  then show "app_lambda_handler lib m event w =
        (Return (PyDict [(''statusCode'', PyInt 200),
                         (''body'', PyDict [(''response'', response),
                            (''session_id'', dict_get event ''session_id'' (PyStr ''default''))])]),
         w')"
    by (rule app_lambda_handler_success)
next
  fix e w'
  assume "lib_method lib (conversation m) ''predict'' []
            [(''input'', dict_get event ''message'' (PyStr ''''))] w = (Inl e, w')"
  then show "app_lambda_handler lib m event w = (Raise e, w')"
    by (rule app_lambda_handler_failure)
next
  fix bedrock w1 history w2 chain w3 response w4 body w5
  assume "lib_call lib ''Bedrock'' []
            [(''model_id'', PyStr ''anthropic.claude-v2''), (''region_name'', PyStr ''us-east-1'')] w
          = (Inr bedrock, w1)"
    and "lib_call lib ''DynamoDBChatMessageHistory'' []
           [(''table_name'', PyStr ''langchain-chat-history''),
            (''session_id'', dict_get event ''session_id'' (PyStr ''default''))] w1
         = (Inr history, w2)"
    and "lib_call lib ''ConversationChain'' [] [(''llm'', bedrock), (''memory'', history)] w2
         = (Inr chain, w3)"
    and "lib_method lib chain ''predict'' []
           [(''input'', dict_get event ''message'' (PyStr ''''))] w3 = (Inr response, w4)"
    and "lib_call lib ''json.dumps''
           [PyDict [(''response'', response),
                    (''session_id'', dict_get event ''session_id'' (PyStr ''default''))]] [] w4
         = (Inr body, w5)"
  then show "deploy_aws_lambda_handler lib event w =
               (Return (PyDict [(''statusCode'', PyInt 200), (''body'', body)]), w5)"
    by (rule deploy_aws_returns)
next
  fix e w'
  assume "lib_call lib ''Bedrock'' []
            [(''model_id'', PyStr ''anthropic.claude-v2''), (''region_name'', PyStr ''us-east-1'')] w
          = (Inl e, w')"
  then show "deploy_aws_lambda_handler lib event w = (Raise e, w')"
    by (rule deploy_aws_Bedrock_raises)
next
  fix bedrock w1 e w'
  assume "lib_call lib ''Bedrock'' []
            [(''model_id'', PyStr ''anthropic.claude-v2''), (''region_name'', PyStr ''us-east-1'')] w
          = (Inr bedrock, w1)"
    and "lib_call lib ''DynamoDBChatMessageHistory'' []
           [(''table_name'', PyStr ''langchain-chat-history''),
            (''session_id'', dict_get event ''session_id'' (PyStr ''default''))] w1
         = (Inl e, w')"
  then show "deploy_aws_lambda_handler lib event w = (Raise e, w')"
    by (rule deploy_aws_history_raises)
next
  fix bedrock w1 history w2 e w'
  assume "lib_call lib ''Bedrock'' []
            [(''model_id'', PyStr ''anthropic.claude-v2''), (''region_name'', PyStr ''us-east-1'')] w
          = (Inr bedrock, w1)"
    and "lib_call lib ''DynamoDBChatMessageHistory'' []
           [(''table_name'', PyStr ''langchain-chat-history''),
            (''session_id'', dict_get event ''session_id'' (PyStr ''default''))] w1
         = (Inr history, w2)"
    and "lib_call lib ''ConversationChain'' [] [(''llm'', bedrock), (''memory'', history)] w2
         = (Inl e, w')"
  then show "deploy_aws_lambda_handler lib event w = (Raise e, w')"
    by (rule deploy_aws_chain_raises)
next
  fix bedrock w1 history w2 chain w3 e w'
  assume "lib_call lib ''Bedrock'' []
            [(''model_id'', PyStr ''anthropic.claude-v2''), (''region_name'', PyStr ''us-east-1'')] w
          = (Inr bedrock, w1)"
    and "lib_call lib ''DynamoDBChatMessageHistory'' []
           [(''table_name'', PyStr ''langchain-chat-history''),
            (''session_id'', dict_get event ''session_id'' (PyStr ''default''))] w1
         = (Inr history, w2)"
    and "lib_call lib ''ConversationChain'' [] [(''llm'', bedrock), (''memory'', history)] w2
         = (Inr chain, w3)"
    and "lib_method lib chain ''predict'' []
           [(''input'', dict_get event ''message'' (PyStr ''''))] w3 = (Inl e, w')"
  then show "deploy_aws_lambda_handler lib event w = (Raise e, w')"
    by (rule deploy_aws_predict_raises)
next
  fix bedrock w1 history w2 chain w3 response w4 e w'
  assume "lib_call lib ''Bedrock'' []
            [(''model_id'', PyStr ''anthropic.claude-v2''), (''region_name'', PyStr ''us-east-1'')] w
          = (Inr bedrock, w1)"
    and "lib_call lib ''DynamoDBChatMessageHistory'' []
           [(''table_name'', PyStr ''langchain-chat-history''),
            (''session_id'', dict_get event ''session_id'' (PyStr ''default''))] w1
         = (Inr history, w2)"
    and "lib_call lib ''ConversationChain'' [] [(''llm'', bedrock), (''memory'', history)] w2
         = (Inr chain, w3)"
    and "lib_method lib chain ''predict'' []
           [(''input'', dict_get event ''message'' (PyStr ''''))] w3 = (Inr response, w4)"
    and "lib_call lib ''json.dumps''
           [PyDict [(''response'', response),
                    (''session_id'', dict_get event ''session_id'' (PyStr ''default''))]] [] w4
         = (Inl e, w')"
  then show "deploy_aws_lambda_handler lib event w = (Raise e, w')"
    by (rule deploy_aws_dumps_raises)
qed

theorem lambda_handlers_result_witness:
  "app_lambda_handler echo_libs (demo_module PyNone None)
     [''message'' \<mapsto> PyStr ''hi'', ''session_id'' \<mapsto> PyStr ''s1''] []
     = (Return (PyDict [(''statusCode'', PyInt 200),
                        (''body'', PyDict [(''response'', PyStr ''echo: hi''),
                                           (''session_id'', PyStr ''s1'')])]), [''hi''])
   \<and> deploy_aws_lambda_handler echo_libs
       [''message'' \<mapsto> PyStr ''hi'', ''session_id'' \<mapsto> PyStr ''s1''] []
     = (Return (PyDict [(''statusCode'', PyInt 200),
          (''body'', PyStr (''{'' @ [CHR 0x22] @ ''response'' @ [CHR 0x22] @ '': ''
                            @ [CHR 0x22] @ ''echo: hi'' @ [CHR 0x22] @ '', ''
                            @ [CHR 0x22] @ ''session_id'' @ [CHR 0x22] @ '': ''
                            @ [CHR 0x22] @ ''s1'' @ [CHR 0x22] @ ''}''))]), [''hi''])
   \<and> deploy_aws_lambda_handler (raising_libs ''predict'' (Exn ''TimeoutError'' ''model timed out''))
       [''message'' \<mapsto> PyStr ''hi'', ''session_id'' \<mapsto> PyStr ''s1''] []
     = (Raise (Exn ''TimeoutError'' ''model timed out''), [])
   \<and> app_lambda_handler (raising_libs ''predict'' (Exn ''TimeoutError'' ''model timed out''))
       (demo_module PyNone None)
       [''message'' \<mapsto> PyStr ''hi'', ''session_id'' \<mapsto> PyStr ''s1''] []
     = (Raise (Exn ''TimeoutError'' ''model timed out''), [])"
proof -
  let ?ev = "[''message'' \<mapsto> PyStr ''hi'', ''session_id'' \<mapsto> PyStr ''s1''] :: string \<rightharpoonup> string pyval"
  let ?m = "demo_module PyNone None"
  let ?e = "Exn ''TimeoutError'' ''model timed out''"
  let ?bad = "raising_libs ''predict'' ?e"
  let ?body = "''{'' @ [CHR 0x22] @ ''response'' @ [CHR 0x22] @ '': ''
                 @ [CHR 0x22] @ ''echo: hi'' @ [CHR 0x22] @ '', ''
                 @ [CHR 0x22] @ ''session_id'' @ [CHR 0x22] @ '': ''
                 @ [CHR 0x22] @ ''s1'' @ [CHR 0x22] @ ''}''"
  note good = lambda_handlers_result [of echo_libs ?m ?ev "[]"]
  note bad = lambda_handlers_result [of ?bad ?m ?ev "[]"]
  have msg: "dict_get ?ev ''message'' (PyStr '''') = PyStr ''hi''"
    and sid: "dict_get ?ev ''session_id'' (PyStr ''default'') = PyStr ''s1''"
    by (simp_all add: dict_get_def)
  have p1: "lib_method echo_libs (conversation ?m) ''predict'' []
              [(''input'', dict_get ?ev ''message'' (PyStr ''''))] [] = (Inr (PyStr ''echo: hi''), [''hi''])"
    by (simp add: echo_defs msg)
  have g1: "lib_call echo_libs ''Bedrock'' []
              [(''model_id'', PyStr ''anthropic.claude-v2''), (''region_name'', PyStr ''us-east-1'')] []
            = (Inr (PyObj ''Bedrock''), [])"
    by (simp add: echo_defs)
  have g2: "lib_call echo_libs ''DynamoDBChatMessageHistory'' []
              [(''table_name'', PyStr ''langchain-chat-history''),
               (''session_id'', dict_get ?ev ''session_id'' (PyStr ''default''))] []
            = (Inr (PyObj ''DynamoDBChatMessageHistory''), [])"
    by (simp add: echo_defs)
  have g3: "lib_call echo_libs ''ConversationChain'' []
              [(''llm'', PyObj ''Bedrock''), (''memory'', PyObj ''DynamoDBChatMessageHistory'')] []
            = (Inr (PyObj ''ConversationChain''), [])"
    by (simp add: echo_defs)
  have g4: "lib_method echo_libs (PyObj ''ConversationChain'') ''predict'' []
              [(''input'', dict_get ?ev ''message'' (PyStr ''''))] []
            = (Inr (PyStr ''echo: hi''), [''hi''])"
    by (simp add: echo_defs msg)
  have g5: "lib_call echo_libs ''json.dumps''
              [PyDict [(''response'', PyStr ''echo: hi''),
                       (''session_id'', dict_get ?ev ''session_id'' (PyStr ''default''))]] [] [''hi'']
            = (Inr (PyStr ?body), [''hi''])"
    by (simp add: echo_defs sid)
  have b1: "lib_call ?bad ''Bedrock'' []
              [(''model_id'', PyStr ''anthropic.claude-v2''), (''region_name'', PyStr ''us-east-1'')] []
            = (Inr (PyObj ''Bedrock''), [])"
    by (simp add: echo_defs)
  have b2: "lib_call ?bad ''DynamoDBChatMessageHistory'' []
              [(''table_name'', PyStr ''langchain-chat-history''),
               (''session_id'', dict_get ?ev ''session_id'' (PyStr ''default''))] []
            = (Inr (PyObj ''DynamoDBChatMessageHistory''), [])"
    by (simp add: echo_defs)
  have b3: "lib_call ?bad ''ConversationChain'' []
              [(''llm'', PyObj ''Bedrock''), (''memory'', PyObj ''DynamoDBChatMessageHistory'')] []
            = (Inr (PyObj ''ConversationChain''), [])"
    by (simp add: echo_defs)
  have b4: "lib_method ?bad (PyObj ''ConversationChain'') ''predict'' []
              [(''input'', dict_get ?ev ''message'' (PyStr ''''))] [] = (Inl ?e, [])"
    by (simp add: raising_libs_def)
  have b5: "lib_method ?bad (conversation ?m) ''predict'' []
              [(''input'', dict_get ?ev ''message'' (PyStr ''''))] [] = (Inl ?e, [])"
    by (simp add: raising_libs_def)
  have "app_lambda_handler echo_libs ?m ?ev [] =
          (Return (PyDict [(''statusCode'', PyInt 200),
                           (''body'', PyDict [(''response'', PyStr ''echo: hi''),
                              (''session_id'', dict_get ?ev ''session_id'' (PyStr ''default''))])]),
           [''hi''])"
    using good [THEN conjunct1] p1 by blast
  moreover have "deploy_aws_lambda_handler echo_libs ?ev [] =
          (Return (PyDict [(''statusCode'', PyInt 200), (''body'', PyStr ?body)]), [''hi''])"
    using good [THEN conjunct2, THEN conjunct2, THEN conjunct1] g1 g2 g3 g4 g5 by blast
  moreover have "deploy_aws_lambda_handler ?bad ?ev [] = (Raise ?e, [])"
    using bad b1 b2 b3 b4 by simp
  moreover have "app_lambda_handler ?bad ?m ?ev [] = (Raise ?e, [])"
    using bad [THEN conjunct2, THEN conjunct1] b5 by blast
  ultimately show ?thesis
    by (simp add: sid)
qed

text \<open>
  C6 as stated fails on an event for which \<^verbatim>\<open>conversation.predict\<close> raises: the
  handler of \<^verbatim>\<open>deploy_aws.py\<close> returns no record at all, the exception leaves it.
  And where it returns, its body is a string, which has no \<^verbatim>\<open>session_id\<close> entry.
\<close>

theorem deploy_aws_lambda_handler_no_record:
  "\<not> (\<exists>r. fst (deploy_aws_lambda_handler
                 (raising_libs ''predict'' (Exn ''RuntimeError'' ''provider down''))
                 [''message'' \<mapsto> PyStr ''hi'', ''session_id'' \<mapsto> PyStr ''s1''] []) = Return r)
   \<and> (\<exists>r text. fst (deploy_aws_lambda_handler echo_libs
                      [''message'' \<mapsto> PyStr ''hi'', ''session_id'' \<mapsto> PyStr ''s1''] []) = Return r
        \<and> item r ''body'' = Some (PyStr text)
        \<and> item (PyStr text :: string pyval) ''session_id'' = None)"
  by (simp add: deploy_aws_lambda_handler_def deploy_aws_predict_def echo_defs run_defs item_def)

section \<open>The default session id\<close>

lemma dict_get_missing: "event k = None \<Longrightarrow> dict_get event k d = d"
  by (simp add: dict_get_def)

lemma app_lambda_handler_default:
  assumes "event ''session_id'' = None"
  shows "app_lambda_handler lib m event w
           = app_lambda_handler lib m (event(''session_id'' \<mapsto> PyStr ''default'')) w"
  using assms by (simp add: app_lambda_handler_def dict_get_def)

lemma deploy_aws_predict_default:
  assumes "event ''session_id'' = None"
  shows "deploy_aws_predict lib event
           = deploy_aws_predict lib (event(''session_id'' \<mapsto> PyStr ''default''))"
  using assms by (simp add: deploy_aws_predict_def dict_get_def)

lemma deploy_aws_lambda_handler_default:
  assumes "event ''session_id'' = None"
  shows "deploy_aws_lambda_handler lib event w
           = deploy_aws_lambda_handler lib (event(''session_id'' \<mapsto> PyStr ''default'')) w"
  using assms deploy_aws_predict_default [of event lib]
  by (simp add: deploy_aws_lambda_handler_def)

lemma app_lambda_handler_body:
  assumes "app_lambda_handler lib m event w = (Return r, w')"
  shows "\<exists>response. item r ''body'' =
           Some (PyDict [(''response'', response),
                         (''session_id'', dict_get event ''session_id'' (PyStr ''default''))])"
proof -
  obtain x w1 where predict: "lib_method lib (conversation m) ''predict'' []
      [(''input'', dict_get event ''message'' (PyStr ''''))] w = (x, w1)"
    by (cases "lib_method lib (conversation m) ''predict'' []
                 [(''input'', dict_get event ''message'' (PyStr ''''))] w")
  show ?thesis
  proof (cases x)
    case (Inl e)
    with predict assms show ?thesis by (simp add: app_lambda_handler_failure)
  next
    case (Inr response)
    with predict assms show ?thesis
      by (auto simp: app_lambda_handler_success item_PyDict)
  qed
qed

lemma deploy_aws_returns_default:
  assumes "event ''session_id'' = None"
    and "lib_call lib ''Bedrock'' []
             [(''model_id'', PyStr ''anthropic.claude-v2''), (''region_name'', PyStr ''us-east-1'')] w
           = (Inr bedrock, w1)"
    and "lib_call lib ''DynamoDBChatMessageHistory'' []
           [(''table_name'', PyStr ''langchain-chat-history''), (''session_id'', PyStr ''default'')] w1
         = (Inr history, w2)"
    and "lib_call lib ''ConversationChain'' [] [(''llm'', bedrock), (''memory'', history)] w2
         = (Inr chain, w3)"
    and "lib_method lib chain ''predict'' [] [(''input'', dict_get event ''message'' (PyStr ''''))] w3
         = (Inr response, w4)"
    and "lib_call lib ''json.dumps''
           [PyDict [(''response'', response), (''session_id'', PyStr ''default'')]] [] w4
         = (Inr body, w5)"
  shows "deploy_aws_lambda_handler lib event w =
           (Return (PyDict [(''statusCode'', PyInt 200), (''body'', body)]), w5)"
proof -
  have sid: "dict_get event ''session_id'' (PyStr ''default'') = PyStr ''default''"
    using assms(1) by (simp add: dict_get_def)
  show ?thesis
    using assms(2-6) deploy_aws_returns [of lib w bedrock w1 event history w2 chain w3 response w4 body w5]
    by (simp add: sid)
qed

text \<open>
  C8. A \<^verbatim>\<open>POST /chat\<close> request without \<^verbatim>\<open>session_id\<close> is handled as the request
  with \<^verbatim>\<open>session_id = "default"\<close>, and its response carries \<^verbatim>\<open>"default"\<close>. An event
  without \<^verbatim>\<open>session_id\<close> is handled by both Lambda handlers as the event with
  \<^verbatim>\<open>session_id = "default"\<close>. The handler of \<^verbatim>\<open>app.py\<close> returns \<^verbatim>\<open>"default"\<close>
  in its body. The handler of \<^verbatim>\<open>deploy_aws.py\<close> opens the history of the session
  \<^verbatim>\<open>"default"\<close> and returns, as its body, the text \<^verbatim>\<open>json.dumps\<close> makes of the
  dictionary whose \<^verbatim>\<open>session_id\<close> is \<^verbatim>\<open>"default"\<close>.
\<close>

theorem omitted_session_id_is_default:
  "chat lib m (ChatRequest_init msg None) w = chat lib m (ChatRequest_init msg (Some (Some ''default''))) w
   \<and> (\<forall>d w'. chat lib m (ChatRequest_init msg None) w = (Return d, w') \<longrightarrow>
         item d ''session_id'' = Some (PyStr ''default''))
   \<and> (event ''session_id'' = None \<longrightarrow>
        app_lambda_handler lib m event w
          = app_lambda_handler lib m (event(''session_id'' \<mapsto> PyStr ''default'')) w
        \<and> (\<forall>r w'. app_lambda_handler lib m event w = (Return r, w') \<longrightarrow>
              (\<exists>response. item r ''body'' =
                 Some (PyDict [(''response'', response), (''session_id'', PyStr ''default'')])))
        \<and> deploy_aws_lambda_handler lib event w
            = deploy_aws_lambda_handler lib (event(''session_id'' \<mapsto> PyStr ''default'')) w
        \<and> (\<forall>bedrock w1 history w2 chain w3 response w4 body w5.
              lib_call lib ''Bedrock'' []
                [(''model_id'', PyStr ''anthropic.claude-v2''),
                 (''region_name'', PyStr ''us-east-1'')] w
                = (Inr bedrock, w1) \<longrightarrow>
              lib_call lib ''DynamoDBChatMessageHistory'' []
                [(''table_name'', PyStr ''langchain-chat-history''),
                 (''session_id'', PyStr ''default'')] w1
                = (Inr history, w2) \<longrightarrow>
              lib_call lib ''ConversationChain'' [] [(''llm'', bedrock), (''memory'', history)] w2
                = (Inr chain, w3) \<longrightarrow>
              lib_method lib chain ''predict'' []
                [(''input'', dict_get event ''message'' (PyStr ''''))] w3 = (Inr response, w4) \<longrightarrow>
              lib_call lib ''json.dumps''
                [PyDict [(''response'', response), (''session_id'', PyStr ''default'')]] [] w4
                = (Inr body, w5) \<longrightarrow>
              deploy_aws_lambda_handler lib event w =
                (Return (PyDict [(''statusCode'', PyInt 200), (''body'', body)]), w5)))"
proof (intro conjI allI impI)
  show "chat lib m (ChatRequest_init msg None) w
          = chat lib m (ChatRequest_init msg (Some (Some ''default''))) w"
    by (simp add: ChatRequest_init_def)
next
  fix d w'
  assume "chat lib m (ChatRequest_init msg None) w = (Return d, w')"
  from chat_Return [OF this]
  show "item d ''session_id'' = Some (PyStr ''default'')"
    by (auto simp: ChatRequest_init_def py_optional_str_def item_PyDict)
next
  assume none: "event ''session_id'' = None"
  show "app_lambda_handler lib m event w
          = app_lambda_handler lib m (event(''session_id'' \<mapsto> PyStr ''default'')) w"
    using none by (rule app_lambda_handler_default)
  show "deploy_aws_lambda_handler lib event w
          = deploy_aws_lambda_handler lib (event(''session_id'' \<mapsto> PyStr ''default'')) w"
    using none by (rule deploy_aws_lambda_handler_default)
next
  fix r w'
  assume none: "event ''session_id'' = None"
    and "app_lambda_handler lib m event w = (Return r, w')"
  from app_lambda_handler_body [OF this(2)] none
    dict_get_missing [of event "''session_id''" "PyStr ''default''"]
  show "\<exists>response. item r ''body'' =
          Some (PyDict [(''response'', response), (''session_id'', PyStr ''default'')])"
    by simp
next
  fix bedrock w1 history w2 chain w3 response w4 body w5
  assume "event ''session_id'' = None"
    and "lib_call lib ''Bedrock'' []
           [(''model_id'', PyStr ''anthropic.claude-v2''), (''region_name'', PyStr ''us-east-1'')] w
         = (Inr bedrock, w1)"
    and "lib_call lib ''DynamoDBChatMessageHistory'' []
           [(''table_name'', PyStr ''langchain-chat-history''), (''session_id'', PyStr ''default'')] w1
         = (Inr history, w2)"
    and "lib_call lib ''ConversationChain'' [] [(''llm'', bedrock), (''memory'', history)] w2
         = (Inr chain, w3)"
    and "lib_method lib chain ''predict'' []
           [(''input'', dict_get event ''message'' (PyStr ''''))] w3 = (Inr response, w4)"
    and "lib_call lib ''json.dumps''
           [PyDict [(''response'', response), (''session_id'', PyStr ''default'')]] [] w4
         = (Inr body, w5)"
  then show "deploy_aws_lambda_handler lib event w =
               (Return (PyDict [(''statusCode'', PyInt 200), (''body'', body)]), w5)"
    by (rule deploy_aws_returns_default)
qed

theorem omitted_session_id_is_default_witness:
  "[''message'' \<mapsto> PyStr ''hi''] ''session_id'' = (None :: string pyval option)
   \<and> (\<exists>d. chat echo_libs (demo_module PyNone None) (ChatRequest_init ''hi'' None) []
              = (Return d, [''hi''])
          \<and> item d ''session_id'' = Some (PyStr ''default''))
   \<and> (\<exists>r response.
          app_lambda_handler echo_libs (demo_module PyNone None) [''message'' \<mapsto> PyStr ''hi''] []
            = (Return r, [''hi''])
          \<and> item r ''body'' =
              Some (PyDict [(''response'', response), (''session_id'', PyStr ''default'')]))
   \<and> deploy_aws_lambda_handler echo_libs [''message'' \<mapsto> PyStr ''hi''] []
       = deploy_aws_lambda_handler echo_libs
           [''message'' \<mapsto> PyStr ''hi'', ''session_id'' \<mapsto> PyStr ''default''] []
   \<and> deploy_aws_lambda_handler echo_libs [''message'' \<mapsto> PyStr ''hi''] []
       = (Return (PyDict [(''statusCode'', PyInt 200),
            (''body'', PyStr (''{'' @ [CHR 0x22] @ ''response'' @ [CHR 0x22] @ '': ''
                              @ [CHR 0x22] @ ''echo: hi'' @ [CHR 0x22] @ '', ''
                              @ [CHR 0x22] @ ''session_id'' @ [CHR 0x22] @ '': ''
                              @ [CHR 0x22] @ ''default'' @ [CHR 0x22] @ ''}''))]), [''hi''])"
proof -
  let ?ev = "[''message'' \<mapsto> PyStr ''hi''] :: string \<rightharpoonup> string pyval"
  let ?m = "demo_module PyNone None"
  let ?body = "''{'' @ [CHR 0x22] @ ''response'' @ [CHR 0x22] @ '': ''
                 @ [CHR 0x22] @ ''echo: hi'' @ [CHR 0x22] @ '', ''
                 @ [CHR 0x22] @ ''session_id'' @ [CHR 0x22] @ '': ''
                 @ [CHR 0x22] @ ''default'' @ [CHR 0x22] @ ''}''"
  note all = omitted_session_id_is_default [of echo_libs ?m "''hi''" "[]" ?ev]
  have none: "?ev ''session_id'' = None"
    by simp
  have msg: "dict_get ?ev ''message'' (PyStr '''') = PyStr ''hi''"
    by (simp add: dict_get_def)
  obtain d where c: "chat echo_libs ?m (ChatRequest_init ''hi'' None) [] = (Return d, [''hi''])"
    by (simp add: chat_def echo_defs ChatRequest_init_def)
  obtain r where l: "app_lambda_handler echo_libs ?m ?ev [] = (Return r, [''hi''])"
    by (simp add: app_lambda_handler_def echo_defs run_defs)
  have g1: "lib_call echo_libs ''Bedrock'' []
              [(''model_id'', PyStr ''anthropic.claude-v2''), (''region_name'', PyStr ''us-east-1'')] []
            = (Inr (PyObj ''Bedrock''), [])"
    by (simp add: echo_defs)
  have g2: "lib_call echo_libs ''DynamoDBChatMessageHistory'' []
              [(''table_name'', PyStr ''langchain-chat-history''), (''session_id'', PyStr ''default'')] []
            = (Inr (PyObj ''DynamoDBChatMessageHistory''), [])"
    by (simp add: echo_defs)
  have g3: "lib_call echo_libs ''ConversationChain'' []
              [(''llm'', PyObj ''Bedrock''), (''memory'', PyObj ''DynamoDBChatMessageHistory'')] []
            = (Inr (PyObj ''ConversationChain''), [])"
    by (simp add: echo_defs)
  have g4: "lib_method echo_libs (PyObj ''ConversationChain'') ''predict'' []
              [(''input'', dict_get ?ev ''message'' (PyStr ''''))] []
            = (Inr (PyStr ''echo: hi''), [''hi''])"
    by (simp add: echo_defs msg)
  have g5: "lib_call echo_libs ''json.dumps''
              [PyDict [(''response'', PyStr ''echo: hi''), (''session_id'', PyStr ''default'')]] []
              [''hi'']
            = (Inr (PyStr ?body), [''hi''])"
    by (simp add: echo_defs)
  note rest = all [THEN conjunct2, THEN conjunct2, rule_format, OF none]
  have "item d ''session_id'' = Some (PyStr ''default'')"
    using all [THEN conjunct2, THEN conjunct1] c by blast
  moreover have "\<exists>response. item r ''body'' =
      Some (PyDict [(''response'', response), (''session_id'', PyStr ''default'')])"
    using rest [THEN conjunct2, THEN conjunct1] l by blast
  moreover have "deploy_aws_lambda_handler echo_libs ?ev []
      = deploy_aws_lambda_handler echo_libs (?ev(''session_id'' \<mapsto> PyStr ''default'')) []"
    using rest [THEN conjunct2, THEN conjunct2, THEN conjunct1] .
  moreover have "deploy_aws_lambda_handler echo_libs ?ev []
      = (Return (PyDict [(''statusCode'', PyInt 200), (''body'', PyStr ?body)]), [''hi''])"
    using rest [THEN conjunct2, THEN conjunct2, THEN conjunct2] g1 g2 g3 g4 g5 by blast
  ultimately show ?thesis
    using none c l by (simp del: fun_upd_apply)
qed

section \<open>The session id and the model's answer\<close>

text \<open>
  C9. The handler of \<^verbatim>\<open>POST /chat\<close> passes only the message to the one conversation
  chain of the module. Two requests with the same message, handled in the same state of
  the world (the chain's memory and the provider), end in the same state and carry the
  same \<^verbatim>\<open>response\<close>, or fail with the same error, whatever their session ids.
\<close>

theorem chat_response_independent_of_session_id:
  assumes "message r1 = message r2"
  shows "snd (chat lib m r1 w) = snd (chat lib m r2 w)
    \<and> (\<forall>d1. fst (chat lib m r1 w) = Return d1 \<longrightarrow>
          (\<exists>d2. fst (chat lib m r2 w) = Return d2 \<and> item d2 ''response'' = item d1 ''response''))
    \<and> (\<forall>c t. fst (chat lib m r1 w) = HTTPException c t \<longrightarrow>
          fst (chat lib m r2 w) = HTTPException c t)"
proof -
  obtain x w1 where predict:
    "lib_method lib (conversation m) ''predict'' [] [(''input'', PyStr (message r1))] w = (x, w1)"
    by (cases "lib_method lib (conversation m) ''predict'' [] [(''input'', PyStr (message r1))] w")
  show ?thesis
  proof (cases x)
    case (Inl e)
    with predict assms
    have "chat lib m r1 w = (HTTPException 500 (exn_str e), w1)"
      and "chat lib m r2 w = (HTTPException 500 (exn_str e), w1)"
      by (simp_all add: chat_failure)
    then show ?thesis by simp
  next
    case (Inr response)
    with predict assms
    have "chat lib m r1 w = (Return (PyDict [(''response'', response),
              (''session_id'', py_optional_str (session_id r1))]), w1)"
      and "chat lib m r2 w = (Return (PyDict [(''response'', response),
              (''session_id'', py_optional_str (session_id r2))]), w1)"
      by (simp_all add: chat_success)
    then show ?thesis by (simp add: item_PyDict)
  qed
qed

theorem chat_response_independent_of_session_id_witness:
  "message \<lparr>message = ''hi'', session_id = Some ''alice''\<rparr>
     = message \<lparr>message = ''hi'', session_id = Some ''bob''\<rparr>
   \<and> (\<exists>d1 d2.
         chat echo_libs (demo_module PyNone None) \<lparr>message = ''hi'', session_id = Some ''alice''\<rparr>
           [''earlier''] = (Return d1, [''earlier'', ''hi''])
       \<and> chat echo_libs (demo_module PyNone None) \<lparr>message = ''hi'', session_id = Some ''bob''\<rparr>
           [''earlier''] = (Return d2, [''earlier'', ''hi''])
       \<and> item d1 ''session_id'' = Some (PyStr ''alice'')
       \<and> item d2 ''session_id'' = Some (PyStr ''bob'')
       \<and> item d2 ''response'' = item d1 ''response'')"
proof -
  let ?a = "\<lparr>message = ''hi'', session_id = Some ''alice''\<rparr>"
  let ?b = "\<lparr>message = ''hi'', session_id = Some ''bob''\<rparr>"
  let ?m = "demo_module PyNone None"
  have same: "message ?a = message ?b"
    by simp
  note indep = chat_response_independent_of_session_id [OF same, of echo_libs ?m "[''earlier'']"]
  obtain d1 where a: "chat echo_libs ?m ?a [''earlier''] = (Return d1, [''earlier'', ''hi''])"
      and ida: "item d1 ''session_id'' = Some (PyStr ''alice'')"
    by (simp add: chat_def echo_defs py_optional_str_def item_PyDict)
  obtain d2 where b: "chat echo_libs ?m ?b [''earlier''] = (Return d2, [''earlier'', ''hi''])"
      and idb: "item d2 ''session_id'' = Some (PyStr ''bob'')"
    by (simp add: chat_def echo_defs py_optional_str_def item_PyDict)
  have "item d2 ''response'' = item d1 ''response''"
    using indep a b by simp
  then show ?thesis
    using same a b ida idb by blast
qed

section \<open>A failure while the vector store is initialised\<close>

lemma init_vector_store_early_failure:
  assumes "create_vector_store lib w = (Inl e, w')"
  shows "init_vector_store lib l w =
           ((PyNone, None, [''Error initializing vector store: '' @ exn_str e]), w')"
  using assms by (simp add: init_vector_store_def)

lemma init_vector_store_late_failure:
  assumes "create_vector_store lib w = (Inr store, w1)"
    and "create_retrieval_qa lib l store w1 = (Inl e, w2)"
  shows "init_vector_store lib l w =
           ((store, None, [''Error initializing vector store: '' @ exn_str e]), w2)"
  using assms by (simp add: init_vector_store_def)

text \<open>
  When the exception comes before \<^verbatim>\<open>Chroma.from_documents\<close> has returned (from the
  loader, the splitter, the embeddings or the store itself), the module is initialised
  with \<open>vector_store = None\<close>, the error is printed, and every \<^verbatim>\<open>POST /query\<close>
  is answered with status 400.
\<close>

lemma module_init_early_failure:
  assumes key: "py_truth (lib_truth lib) (environ_get os ''OPENAI_API_KEY'')"
    and conv: "create_conversation lib w = (Inr (l, mem, conv), w1)"
    and data: "path_exists os ''data''"
    and fail: "create_vector_store lib w1 = (Inl e, w2)"
  shows "\<exists>m. module_init lib os w =
               (Inr m, [''Error initializing vector store: '' @ exn_str e], w2)
             \<and> vector_store m = PyNone
             \<and> (\<forall>request w3. query lib m request w3 =
                   (HTTPException 400 ''Vector store not initialized'', w3))"
  using assms
  by (simp add: module_init_def Let_def init_vector_store_early_failure query_def)

text \<open>
  C10 at an input where it fails. The \<^verbatim>\<open>data\<close> directory exists, the store is
  created, and \<^verbatim>\<open>vector_store.as_retriever()\<close> raises: the \<^verbatim>\<open>try\<close> block prints
  the error as an error of the vector store's initialisation, but \<open>vector_store\<close> is
  already bound to the store and \<open>retrieval_qa\<close> is left unbound. The server starts,
  and \<^verbatim>\<open>POST /query\<close> answers with status 500 (the \<^verbatim>\<open>NameError\<close> of the unbound
  name), not 400.
\<close>

theorem retriever_failure_leaves_store_and_query_500:
  "(case module_init (raising_libs ''as_retriever'' (Exn ''RuntimeError'' ''retriever unavailable''))
           demo_os [] of
      (Inl e, printed, w) \<Rightarrow> False
    | (Inr m, printed, w) \<Rightarrow>
        printed = [''Error initializing vector store: retriever unavailable'']
        \<and> vector_store m = PyObj ''Chroma.from_documents''
        \<and> retrieval_qa m = None
        \<and> query (raising_libs ''as_retriever'' (Exn ''RuntimeError'' ''retriever unavailable''))
            m \<lparr>query_field = ''q''\<rparr> w
          = (HTTPException 500 ''name 'retrieval_qa' is not defined'', w))"
  by (simp add: module_init_def create_conversation_def init_vector_store_def
        create_vector_store_def create_retrieval_qa_def query_def run_retrieval_qa_def
        environ_get_def echo_defs run_defs)

end
